theory Spec2Isabelle
  imports Main "HOL-Library.Word"
begin

unbundle bit_operations_syntax

section \<open>JavaScript numbers, as far as the driver computes with them\<close>

text \<open>
  A JavaScript \<open>number\<close> is an IEEE-754 double. The driver only ever computes with
  integer-valued numbers (byte values, powers of two, insert ids, batch indices), so a
  number is modelled as an integer-valued double \<open>Num i\<close>, one of the two infinities or
  \<open>NaN\<close>. The integers that are doubles are those whose magnitude has at most 53
  significant bits and lies below \<open>2 ^ 1024\<close>; the result of every arithmetic operation is
  rounded to the nearest such value, ties to the even significand, as the language
  prescribes. The two zeros are not distinguished (\<open>===\<close> does not distinguish them either).
\<close>

datatype jsnum = Num int | PosInf | NegInf | NaN

fun bit_length :: "nat \<Rightarrow> nat" where
  "bit_length n = (if n = 0 then 0 else Suc (bit_length (n div 2)))"

declare bit_length.simps [simp del]

definition round_double :: "nat \<Rightarrow> nat" where
  "round_double n =
     (if n < 2 ^ 53 then n
      else let e = bit_length n - 53; q = n div 2 ^ e; r = n mod 2 ^ e
           in (if 2 ^ e < 2 * r \<or> (2 * r = 2 ^ e \<and> odd q) then q + 1 else q) * 2 ^ e)"

definition to_double :: "int \<Rightarrow> jsnum" where
  "to_double x =
     (let m = round_double (nat \<bar>x\<bar>)
      in if 2 ^ 1024 \<le> m then (if x < 0 then NegInf else PosInf)
         else Num (if x < 0 then - int m else int m))"

text \<open>\<open>a + b\<close> on numbers.\<close>

fun js_add :: "jsnum \<Rightarrow> jsnum \<Rightarrow> jsnum" where
  "js_add (Num a) (Num b) = to_double (a + b)"
| "js_add NaN _ = NaN"
| "js_add _ NaN = NaN"
| "js_add PosInf NegInf = NaN"
| "js_add NegInf PosInf = NaN"
| "js_add PosInf _ = PosInf"
| "js_add _ PosInf = PosInf"
| "js_add NegInf _ = NegInf"
| "js_add _ NegInf = NegInf"

text \<open>\<open>a * b\<close> on numbers.\<close>

fun js_mul :: "jsnum \<Rightarrow> jsnum \<Rightarrow> jsnum" where
  "js_mul (Num a) (Num b) = to_double (a * b)"
| "js_mul NaN _ = NaN"
| "js_mul _ NaN = NaN"
| "js_mul (Num a) PosInf = (if a = 0 then NaN else if a < 0 then NegInf else PosInf)"
| "js_mul (Num a) NegInf = (if a = 0 then NaN else if a < 0 then PosInf else NegInf)"
| "js_mul PosInf (Num b) = (if b = 0 then NaN else if b < 0 then NegInf else PosInf)"
| "js_mul NegInf (Num b) = (if b = 0 then NaN else if b < 0 then PosInf else NegInf)"
| "js_mul PosInf PosInf = PosInf"
| "js_mul NegInf NegInf = PosInf"
| "js_mul PosInf NegInf = NegInf"
| "js_mul NegInf PosInf = NegInf"

text \<open>\<open>Math.pow(2, k)\<close> for a non-negative integer \<open>k\<close>: exact below \<open>2 ^ 1024\<close>,
  \<open>Infinity\<close> from there on.\<close>

definition Math_pow2 :: "nat \<Rightarrow> jsnum" where
  "Math_pow2 k = (if k < 1024 then Num (2 ^ k) else PosInf)"


section \<open>JavaScript values and the built-ins the driver calls\<close>

text \<open>
  The driver's \<open>value: any\<close>. Strings are sequences of 8-bit characters; a \<open>Date\<close> is
  kept as the date-time text it stands for (\<open>JDate s\<close> is \<open>new Date(s)\<close>; the parsing
  and printing of dates is the runtime's and is not modelled); a function is one of the
  zero-argument callbacks the driver invokes, kept as the string it returns; an object
  is a plain object, its own properties in \<open>Object.keys\<close> order.
\<close>

datatype jsval =
    JUndefined
  | JNull
  | JBool bool
  | JNum jsnum
  | JStr string
  | JDate string
  | JBuffer "8 word list"
  | JFun string
  | JArr "jsval list"
  | JObj "(string \<times> jsval) list"

type_synonym ObjectLiteral = "(string \<times> jsval) list"

text \<open>
  What a call of the source does: it returns, it throws, or it leaves the fragment of
  the language modelled here (\<open>Unmodelled\<close>: the text of a Date, a function or a
  Buffer, the digits of a number beyond \<open>2 ^ 53\<close>). Nothing is claimed about a call
  whose model is \<open>Unmodelled\<close>.
\<close>

datatype 'a outcome = Returns 'a | Throws | Unmodelled

definition and_then :: "'a outcome \<Rightarrow> ('a \<Rightarrow> 'b outcome) \<Rightarrow> 'b outcome" where
  "and_then m f = (case m of Returns x \<Rightarrow> f x | Throws \<Rightarrow> Throws | Unmodelled \<Rightarrow> Unmodelled)"

fun all_returned :: "'a outcome list \<Rightarrow> 'a list outcome" where
  "all_returned [] = Returns []"
| "all_returned (m # ms) =
     and_then m (\<lambda>x. and_then (all_returned ms) (\<lambda>xs. Returns (x # xs)))"

text \<open>\<open>typeof v\<close>.\<close>

fun js_typeof :: "jsval \<Rightarrow> string" where
  "js_typeof JUndefined = ''undefined''"
| "js_typeof (JBool _) = ''boolean''"
| "js_typeof (JNum _) = ''number''"
| "js_typeof (JStr _) = ''string''"
| "js_typeof (JFun _) = ''function''"
| "js_typeof _ = ''object''"

text \<open>The truthiness of a value (\<open>if (v)\<close>, \<open>!v\<close>, \<open>a || b\<close>, \<open>a && b\<close>).\<close>

fun truthy :: "jsval \<Rightarrow> bool" where
  "truthy JUndefined = False"
| "truthy JNull = False"
| "truthy (JBool b) = b"
| "truthy (JNum n) = (n \<noteq> Num 0 \<and> n \<noteq> NaN)"
| "truthy (JStr s) = (s \<noteq> [])"
| "truthy _ = True"

subsection \<open>Characters and numerals\<close>

definition is_digit :: "char \<Rightarrow> bool" where
  "is_digit c = (c \<in> set ''0123456789'')"

definition is_hex_digit :: "char \<Rightarrow> bool" where
  "is_hex_digit c = (c \<in> set ''0123456789abcdefABCDEF'')"

definition hex_value :: "char \<Rightarrow> nat" where
  "hex_value c =
     (if is_digit c then of_char c - 48
      else if c \<in> set ''abcdef'' then of_char c - 87
      else of_char c - 55)"

text \<open>White space and line terminators, among the 8-bit characters:
  TAB, LF, VT, FF, CR, SP and NBSP.\<close>

definition is_space :: "char \<Rightarrow> bool" where
  "is_space c = (of_char c \<in> {9, 10, 11, 12, 13, 32, 160 :: nat})"

definition trim :: "string \<Rightarrow> string" where
  "trim s = rev (dropWhile is_space (rev (dropWhile is_space s)))"

text \<open>The value of a string of digits in a radix, most significant digit first.\<close>

definition digits_value :: "nat \<Rightarrow> string \<Rightarrow> nat" where
  "digits_value radix ds = foldl (\<lambda>v c. v * radix + hex_value c) 0 ds"

text \<open>The decimal numeral of a natural number.\<close>

fun decimal :: "nat \<Rightarrow> string" where
  "decimal n =
     (if n < 10 then [''0123456789'' ! n] else decimal (n div 10) @ [''0123456789'' ! (n mod 10)])"

declare decimal.simps [simp del]

subsection \<open>\<open>String(v)\<close>, \<open>"" + v\<close>, \<open>`${v}`\<close> and \<open>v.toString()\<close>\<close>

text \<open>
  An integer below \<open>2 ^ 53\<close> in magnitude prints as its decimal numeral. Beyond that
  the language prints the shortest digits that read back as the same double, which is
  not modelled.
\<close>

fun Number_toString :: "jsnum \<Rightarrow> string outcome" where
  "Number_toString (Num n) =
     (if \<bar>n\<bar> < 2 ^ 53
      then Returns (if n < 0 then CHR ''-'' # decimal (nat (- n)) else decimal (nat n))
      else Unmodelled)"
| "Number_toString PosInf = Returns ''Infinity''"
| "Number_toString NegInf = Returns ''-Infinity''"
| "Number_toString NaN = Returns ''NaN''"

definition join :: "string \<Rightarrow> string list \<Rightarrow> string" where
  "join sep xs = concat (case xs of [] \<Rightarrow> [] | y # ys \<Rightarrow> y # map (\<lambda>x. sep @ x) ys)"

fun js_String :: "jsval \<Rightarrow> string outcome" where
  "js_String JUndefined = Returns ''undefined''"
| "js_String JNull = Returns ''null''"
| "js_String (JBool b) = Returns (if b then ''true'' else ''false'')"
| "js_String (JNum n) = Number_toString n"
| "js_String (JStr s) = Returns s"
| "js_String (JDate _) = Unmodelled"
| "js_String (JBuffer _) = Unmodelled"
| "js_String (JFun _) = Unmodelled"
| "js_String (JArr xs) =
     and_then
       (all_returned
          (map (\<lambda>x. if x = JUndefined \<or> x = JNull then Returns [] else js_String x) xs))
       (\<lambda>parts. Returns (join '','' parts))"
| "js_String (JObj _) = Returns ''[object Object]''"

subsection \<open>\<open>parseInt(v)\<close>\<close>

text \<open>
  \<open>parseInt\<close> of a string: leading white space is skipped, then an optional sign, then
  an optional \<open>0x\<close> prefix, then the longest run of digits of the radix; no digit gives
  \<open>NaN\<close>; what follows the digits is ignored. The result is the double nearest to the
  integer the digits denote.
\<close>

definition parseInt_string :: "string \<Rightarrow> jsnum" where
  "parseInt_string inputString =
     (let S = dropWhile is_space inputString;
          negative = (S \<noteq> [] \<and> hd S = CHR ''-'');
          S1 = (if S \<noteq> [] \<and> (hd S = CHR ''+'' \<or> hd S = CHR ''-'') then tl S else S);
          hex = (take 2 S1 = ''0x'' \<or> take 2 S1 = ''0X'');
          S2 = (if hex then drop 2 S1 else S1);
          Z = takeWhile (if hex then is_hex_digit else is_digit) S2;
          mathInt = int (digits_value (if hex then 16 else 10) Z)
      in if Z = [] then NaN else to_double (if negative then - mathInt else mathInt))"

text \<open>
  \<open>parseInt\<close> of any value parses \<open>String(v)\<close>. A number below \<open>10 ^ 21\<close> in
  magnitude prints as digits that read back as the same number; the text of a Date or of a
  function never starts with a digit, a sign or white space.
\<close>

fun js_parseInt :: "jsval \<Rightarrow> jsnum outcome" where
  "js_parseInt (JNum (Num n)) = (if \<bar>n\<bar> < 10 ^ 21 then Returns (Num n) else Unmodelled)"
| "js_parseInt (JDate _) = Returns NaN"
| "js_parseInt (JFun _) = Returns NaN"
| "js_parseInt v = and_then (js_String v) (\<lambda>s. Returns (parseInt_string s))"

subsection \<open>\<open>isNaN(v)\<close> and \<open>isNaN(+v)\<close>\<close>

text \<open>
  Whether a string converts to a number other than \<open>NaN\<close>: after trimming it is empty,
  or a decimal literal (optional sign; \<open>Infinity\<close>, or digits with an optional fraction
  and exponent), or a hexadecimal, octal or binary literal.
\<close>

definition exponent_ok :: "string \<Rightarrow> bool" where
  "exponent_ok r =
     (case r of
        [] \<Rightarrow> True
      | c # r1 \<Rightarrow>
          (c = CHR ''e'' \<or> c = CHR ''E'') \<and>
          (let r2 = (if r1 \<noteq> [] \<and> (hd r1 = CHR ''+'' \<or> hd r1 = CHR ''-'') then tl r1 else r1)
           in r2 \<noteq> [] \<and> list_all is_digit r2))"

definition decimal_literal :: "string \<Rightarrow> bool" where
  "decimal_literal s =
     (let s1 = (if s \<noteq> [] \<and> (hd s = CHR ''+'' \<or> hd s = CHR ''-'') then tl s else s);
          ip = takeWhile is_digit s1;
          r1 = dropWhile is_digit s1;
          dot = (r1 \<noteq> [] \<and> hd r1 = CHR ''.'');
          fp = (if dot then takeWhile is_digit (tl r1) else []);
          r2 = (if dot then dropWhile is_digit (tl r1) else r1)
      in s1 = ''Infinity'' \<or> ((ip \<noteq> [] \<or> fp \<noteq> []) \<and> exponent_ok r2))"

definition non_decimal_literal :: "string \<Rightarrow> bool" where
  "non_decimal_literal s =
     (let p = take 2 s; ds = drop 2 s
      in ds \<noteq> [] \<and>
         (((p = ''0x'' \<or> p = ''0X'') \<and> list_all is_hex_digit ds) \<or>
          ((p = ''0o'' \<or> p = ''0O'') \<and> list_all (\<lambda>c. c \<in> set ''01234567'') ds) \<or>
          ((p = ''0b'' \<or> p = ''0B'') \<and> list_all (\<lambda>c. c \<in> set ''01'') ds)))"

definition string_is_numeric :: "string \<Rightarrow> bool" where
  "string_is_numeric s = (let t = trim s in t = [] \<or> decimal_literal t \<or> non_decimal_literal t)"

fun js_isNaN :: "jsval \<Rightarrow> bool outcome" where
  "js_isNaN JUndefined = Returns True"
| "js_isNaN JNull = Returns False"
| "js_isNaN (JBool _) = Returns False"
| "js_isNaN (JNum n) = Returns (n = NaN)"
| "js_isNaN (JStr s) = Returns (\<not> string_is_numeric s)"
| "js_isNaN (JDate _) = Unmodelled"
| "js_isNaN (JBuffer _) = Unmodelled"
| "js_isNaN (JFun _) = Returns True"
| "js_isNaN (JArr xs) = and_then (js_String (JArr xs)) (\<lambda>s. Returns (\<not> string_is_numeric s))"
| "js_isNaN (JObj _) = Returns True"


section \<open>NumberUtils.numberFromBitString\<close>

text \<open>
  The argument \<open>bit: any\<close> as far as the function tells values apart: a \<open>Buffer\<close> (a
  sequence of bytes), a string (a sequence of UTF-16 code units, which is what
  \<open>charCodeAt\<close> reads) or anything else.
\<close>

datatype bitfield = BitBuffer "8 word list" | BitString "16 word list" | BitOther

text \<open>
  Both loops of the function run \<open>value += byte * Math.pow(2, 8 * (length - 1 - i))\<close> for
  \<open>i = 0, ..., length - 1\<close>. At index \<open>i\<close> the number \<open>length - 1 - i\<close> is the number of
  bytes after the current one.
\<close>

fun accumulate :: "nat list \<Rightarrow> jsnum \<Rightarrow> jsnum" where
  "accumulate [] value = value"
| "accumulate (byte # rest) value =
     accumulate rest (js_add value (js_mul (Num (int byte)) (Math_pow2 (8 * length rest))))"

fun numberFromBitString :: "bitfield \<Rightarrow> jsnum" where
  "numberFromBitString (BitBuffer bytes) = accumulate (map unat bytes) (Num 0)"
| "numberFromBitString (BitString stringVal) =
     accumulate (map (\<lambda>c. unat (c AND 255)) stringVal) (Num 0)"
| "numberFromBitString BitOther = Num 0"

text \<open>
  The older version of the function (\<open>src/util/NumberUtils.ts\<close>) has no buffer branch:
  it runs the string loop on \<open>bit.toString()\<close>, which for a string is the string itself.
  The text of a Buffer or of another value is not modelled.
\<close>

fun numberFromBitString_strings :: "bitfield \<Rightarrow> jsnum outcome" where
  "numberFromBitString_strings (BitString stringVal) =
     Returns (accumulate (map (\<lambda>c. unat (c AND 255)) stringVal) (Num 0))"
| "numberFromBitString_strings _ = Unmodelled"

text \<open>
  The specification's reading of the result: the bytes as a big-endian unsigned integer,
  \<open>byteAt(i) * 256 ^ (len - 1 - i)\<close> summed over \<open>i\<close>, in unbounded arithmetic.
\<close>

fun big_endian :: "nat list \<Rightarrow> nat" where
  "big_endian [] = 0"
| "big_endian (b # bs) = b * 256 ^ length bs + big_endian bs"


section \<open>Columns\<close>

text \<open>
  Modelled from the spec: the declarations of \<open>ColumnType\<close>, \<open>ColumnMetadata\<close>,
  \<open>TableColumn\<close>, \<open>IndexMetadata\<close> and \<open>ValueTransformer\<close> are not among the sources;
  the records below have the fields the driver reads, typed as the driver uses them
  (section 3 of the specification lists the same fields).

  A column type is one of the constructors \<open>Boolean\<close>, \<open>Number\<close>, \<open>String\<close>, \<open>Date\<close>,
  \<open>Buffer\<close>, or the name of a database type.
\<close>

datatype ColumnType =
  BooleanCtor | NumberCtor | StringCtor | DateCtor | BufferCtor | Named string

datatype GenerationStrategy = Increment | Uuid | Rowid

text \<open>A field that is a value, \<open>null\<close> or \<open>undefined\<close> (\<open>precision?: number | null\<close>).\<close>

datatype 'a nullable = Undefined | Null | Defined 'a

text \<open>The transformer of a column: what \<open>ApplyValueTransformers.transformTo\<close> and
  \<open>transformFrom\<close> compute with it.\<close>

record ValueTransformer =
  transformTo :: "jsval \<Rightarrow> jsval outcome"
  transformFrom :: "jsval \<Rightarrow> jsval outcome"

text \<open>An index of the owning entity; its columns are named by property name, which
  identifies a column object within its entity.\<close>

record IndexMetadata =
  idx_isUnique :: bool
  idx_columns :: "string list"

text \<open>
  \<open>length\<close> is a string, empty when no length is declared; \<open>default\<close> is \<open>JUndefined\<close>
  when no default is declared; \<open>entityMetadata_indices\<close> is \<open>column.entityMetadata.indices\<close>.
\<close>

record ColumnMetadata =
  cm_propertyName :: string
  cm_databaseName :: string
  cm_type :: ColumnType
  cm_length :: string
  cm_width :: "nat option"
  cm_precision :: "nat nullable"
  cm_scale :: "nat option"
  cm_zerofill :: bool
  cm_unsigned :: bool
  cm_asExpression :: "string option"
  cm_generatedType :: "string option"
  cm_comment :: "string option"
  cm_default :: jsval
  cm_enum :: "jsval list option"
  cm_onUpdate :: "string option"
  cm_isPrimary :: bool
  cm_isNullable :: bool
  cm_isGenerated :: bool
  cm_generationStrategy :: "GenerationStrategy option"
  cm_transformer :: "ValueTransformer option"
  cm_entityMetadata_indices :: "IndexMetadata list"

record TableColumn =
  tc_name :: string
  tc_type :: string
  tc_length :: string
  tc_width :: "nat option"
  tc_precision :: "nat nullable"
  tc_scale :: "nat option"
  tc_zerofill :: bool
  tc_unsigned :: bool
  tc_asExpression :: "string option"
  tc_generatedType :: "string option"
  tc_comment :: "string option"
  tc_default :: "string option"
  tc_enum :: "string list option"
  tc_onUpdate :: "string option"
  tc_isPrimary :: bool
  tc_isNullable :: bool
  tc_isUnique :: bool
  tc_isGenerated :: bool

record EntityMetadata =
  em_columns :: "ColumnMetadata list"
  em_generatedColumns :: "ColumnMetadata list"

text \<open>
  Code the driver calls that is not among the sources (\<open>DateUtils\<close>, \<open>OrmUtils\<close>, two
  methods of the metadata classes) and the runtime's \<open>JSON\<close>: every function of the
  driver that calls one of them takes them as a parameter, and what is proved holds for
  all of them.
\<close>

record externals =
  JSON_stringify :: "jsval \<Rightarrow> jsval outcome"
  JSON_parse :: "string \<Rightarrow> jsval outcome"
  mixedDateToDateString :: "jsval \<Rightarrow> jsval outcome"
  mixedDateToTimeString :: "jsval \<Rightarrow> jsval outcome"
  mixedDateToDate :: "jsval \<Rightarrow> jsval outcome"
  mixedTimeToString :: "jsval \<Rightarrow> jsval outcome"
  normalizeHydratedDate :: "jsval \<Rightarrow> jsval outcome"
  simpleArrayToString :: "jsval \<Rightarrow> jsval outcome"
  stringToSimpleArray :: "jsval \<Rightarrow> jsval outcome"
  simpleJsonToString :: "jsval \<Rightarrow> jsval outcome"
  stringToSimpleJson :: "jsval \<Rightarrow> jsval outcome"
  isArraysEqual :: "string list \<Rightarrow> string list \<Rightarrow> bool"
  mergeDeep :: "ObjectLiteral \<Rightarrow> ObjectLiteral \<Rightarrow> ObjectLiteral"
  createValueMap :: "ColumnMetadata \<Rightarrow> jsval \<Rightarrow> ObjectLiteral"
  findColumnWithDatabaseName :: "EntityMetadata \<Rightarrow> string \<Rightarrow> ColumnMetadata option"


text \<open>A column as the metadata builder leaves it when nothing is declared; the
  examples below are updates of it.\<close>

definition blank_column :: ColumnMetadata where
  "blank_column =
     \<lparr> cm_propertyName = ''c'', cm_databaseName = ''c'', cm_type = Named ''varchar'',
       cm_length = [], cm_width = None, cm_precision = Undefined, cm_scale = None,
       cm_zerofill = False, cm_unsigned = False, cm_asExpression = None,
       cm_generatedType = None, cm_comment = None, cm_default = JUndefined, cm_enum = None,
       cm_onUpdate = None, cm_isPrimary = False, cm_isNullable = False,
       cm_isGenerated = False, cm_generationStrategy = None, cm_transformer = None,
       cm_entityMetadata_indices = [] \<rparr>"

section \<open>The driver: type and default normalisation\<close>

definition normalizeType :: "ColumnMetadata \<Rightarrow> string" where
  "normalizeType column =
     (let t = cm_type column in
      if t = NumberCtor \<or> t = Named ''integer'' then ''int''
      else if t = StringCtor then ''varchar''
      else if t = DateCtor then ''datetime''
      else if t = BufferCtor then ''blob''
      else if t = BooleanCtor then ''tinyint''
      else if t = Named ''uuid'' then ''varchar''
      else if t = Named ''simple-array'' \<or> t = Named ''simple-json'' then ''text''
      else if t = Named ''simple-enum'' then ''enum''
      else if t = Named ''double precision'' \<or> t = Named ''real'' then ''double''
      else if t = Named ''dec'' \<or> t = Named ''numeric'' \<or> t = Named ''fixed'' then ''decimal''
      else if t = Named ''bool'' \<or> t = Named ''boolean'' then ''tinyint''
      else if t = Named ''nvarchar'' \<or> t = Named ''national varchar'' then ''varchar''
      else if t = Named ''nchar'' \<or> t = Named ''national char'' then ''char''
      else (case t of Named n \<Rightarrow> n | _ \<Rightarrow> []))"

text \<open>\<open>getColumnLength\<close> on a desired column, as \<open>findChangedColumns\<close> calls it (the
  source also calls it on a live column, in \<open>createFullType\<close>).\<close>

definition getColumnLength :: "ColumnMetadata \<Rightarrow> string" where
  "getColumnLength column =
     (if cm_length column \<noteq> [] then cm_length column
      else if cm_generationStrategy column = Some Uuid then ''36''
      else (case cm_type column of
              StringCtor \<Rightarrow> ''255''
            | Named t \<Rightarrow>
                (if t = ''varchar'' \<or> t = ''nvarchar'' \<or> t = ''national varchar'' then ''255''
                 else if t = ''varbinary'' then ''255''
                 else [])
            | _ \<Rightarrow> []))"

text \<open>\<open>s.replace(/^'+|'+$/g, "")\<close>: the run of quotes at the start and the run of
  quotes at the end are removed.\<close>

definition strip_quotes :: "string \<Rightarrow> string" where
  "strip_quotes s =
     rev (dropWhile (\<lambda>c. c = CHR 0x27) (rev (dropWhile (\<lambda>c. c = CHR 0x27) s)))"

fun compareDefaultValues :: "string option \<Rightarrow> string option \<Rightarrow> bool" where
  "compareDefaultValues (Some columnMetadataValue) (Some databaseValue) =
     (strip_quotes columnMetadataValue = strip_quotes databaseValue)"
| "compareDefaultValues columnMetadataValue databaseValue =
     (columnMetadataValue = databaseValue)"

text \<open>The specification's wording of the same comparison: one layer of quotes, that is
  one quote at the start and one at the end, is removed from each side.\<close>

definition strip_one_layer :: "string \<Rightarrow> string" where
  "strip_one_layer s =
     (let s1 = (if s \<noteq> [] \<and> hd s = CHR 0x27 then tl s else s)
      in if s1 \<noteq> [] \<and> last s1 = CHR 0x27 then butlast s1 else s1)"

definition compareNullableValues :: "ColumnMetadata \<Rightarrow> TableColumn \<Rightarrow> bool" where
  "compareNullableValues columnMetadata tableColumn =
     (cm_isNullable columnMetadata = tc_isNullable tableColumn)"

text \<open>
  \<open>toUpperCase\<close>, on the letters \<open>a\<close> to \<open>z\<close>. Among the 8-bit characters the language
  also raises the accented letters, to characters that occur in neither of the two
  keywords searched below.
\<close>

definition toUpperCase :: "string \<Rightarrow> string" where
  "toUpperCase s =
     map (\<lambda>c. if c \<in> set ''abcdefghijklmnopqrstuvwxyz'' then char_of (of_char c - (32::nat)) else c) s"

text \<open>\<open>s.indexOf(p) !== -1\<close>.\<close>

fun contains :: "string \<Rightarrow> string \<Rightarrow> bool" where
  "contains [] p = (p = [])"
| "contains (c # s) p = (take (length p) (c # s) = p \<or> contains s p)"

text \<open>\<open>s.match(/\(\d+\)/)\<close>: the first parenthesised run of digits, with its parentheses.\<close>

fun match_precision :: "string \<Rightarrow> string option" where
  "match_precision [] = None"
| "match_precision (c # s) =
     (let ds = takeWhile is_digit s; r = dropWhile is_digit s
      in if c = CHR ''('' \<and> ds \<noteq> [] \<and> r \<noteq> [] \<and> hd r = CHR '')''
         then Some (CHR ''('' # ds @ '')'')
         else match_precision s)"

definition normalizeDatetimeFunction :: "string option \<Rightarrow> string option" where
  "normalizeDatetimeFunction value =
     (case value of
        None \<Rightarrow> None
      | Some v \<Rightarrow>
          if v = [] then Some v
          else if contains (toUpperCase v) ''CURRENT_TIMESTAMP'' \<or> contains (toUpperCase v) ''NOW''
          then (case match_precision v of
                  Some precision \<Rightarrow> Some (''CURRENT_TIMESTAMP'' @ precision)
                | None \<Rightarrow> Some ''CURRENT_TIMESTAMP'')
          else Some v)"

text \<open>\<open>comment.replace(/\u0000/g, "")\<close>.\<close>

definition escapeComment :: "string option \<Rightarrow> string option" where
  "escapeComment comment =
     (case comment of
        None \<Rightarrow> None
      | Some c \<Rightarrow> if c = [] then Some c else Some (filter (\<lambda>x. x \<noteq> CHR 0x00) c))"

text \<open>
  \<open>n.toFixed(digits)\<close> for an integer-valued number: its decimal numeral, followed by a
  point and \<open>digits\<close> zeros when \<open>digits\<close> is positive; an absent \<open>digits\<close> is 0, and
  more than 100 is a RangeError. From \<open>10 ^ 21\<close> on the language prints as \<open>String\<close> does.
\<close>

fun Number_toFixed :: "jsnum \<Rightarrow> nat option \<Rightarrow> string outcome" where
  "Number_toFixed x digits =
     (let f = (case digits of None \<Rightarrow> 0 | Some d \<Rightarrow> d)
      in if 100 < f then Throws
         else (case x of
                 Num n \<Rightarrow>
                   if \<bar>n\<bar> < 10 ^ 21
                   then Returns ((if n < 0 then ''-'' else []) @ decimal (nat \<bar>n\<bar>) @
                                 (if f = 0 then [] else CHR ''.'' # replicate f CHR ''0''))
                   else Unmodelled
               | _ \<Rightarrow> Number_toString x))"

definition quoted :: "string \<Rightarrow> string" where
  "quoted s = CHR 0x27 # s @ [CHR 0x27]"

definition normalizeDefault :: "externals \<Rightarrow> ColumnMetadata \<Rightarrow> string option outcome" where
  "normalizeDefault ext columnMetadata =
     (let defaultValue = cm_default columnMetadata in
      if defaultValue = JNull then Returns None
      else if (cm_type columnMetadata = Named ''enum'' \<or>
               cm_type columnMetadata = Named ''simple-enum'' \<or>
               js_typeof defaultValue = ''string'') \<and> defaultValue \<noteq> JUndefined
      then and_then (js_String defaultValue) (\<lambda>s. Returns (Some (quoted s)))
      else if cm_type columnMetadata = Named ''set'' \<and> defaultValue \<noteq> JUndefined
      then and_then (simpleArrayToString ext defaultValue)
             (\<lambda>v. and_then (js_String v) (\<lambda>s. Returns (Some (quoted s))))
      else (case defaultValue of
              JNum n \<Rightarrow>
                and_then (Number_toFixed n (cm_scale columnMetadata))
                  (\<lambda>s. Returns (Some (quoted s)))
            | JBool b \<Rightarrow> Returns (Some (if b then ''1'' else ''0''))
            | JFun v \<Rightarrow> Returns (normalizeDatetimeFunction (Some v))
            | JUndefined \<Rightarrow> Returns None
            | _ \<Rightarrow> and_then (js_String defaultValue) (\<lambda>s. Returns (Some s))))"

definition normalizeIsUnique :: "ColumnMetadata \<Rightarrow> bool" where
  "normalizeIsUnique column =
     list_ex (\<lambda>idx. idx_isUnique idx \<and> length (idx_columns idx) = 1 \<and>
                     hd (idx_columns idx) = cm_propertyName column)
       (cm_entityMetadata_indices column)"


section \<open>The driver: table names\<close>

text \<open>
  The argument of \<open>parseTableName\<close>: a \<open>Table\<close> or a \<open>View\<close> (name, database, schema), a
  \<open>TableForeignKey\<close> (referenced table name, database, schema), an \<open>EntityMetadata\<close> (table
  name, database, schema) or a string.
\<close>

datatype target =
    TableOrView string "string option" "string option"
  | ForeignKey string "string option" "string option"
  | Entity string "string option" "string option"
  | Path string

record ParsedTableName =
  database :: "string option"
  schema :: "string option"
  tableName :: string

text \<open>\<open>a || b\<close> on optional strings: the empty string is falsy.\<close>

definition or_else :: "string option \<Rightarrow> string option \<Rightarrow> string option" where
  "or_else a b = (case a of None \<Rightarrow> b | Some s \<Rightarrow> if s = [] then b else a)"

text \<open>\<open>s.split(sep)\<close> for a one-character separator.\<close>

fun split :: "char \<Rightarrow> string \<Rightarrow> string list" where
  "split sep [] = [[]]"
| "split sep (c # s) =
     (if c = sep then [] # split sep s
      else (case split sep s of [] \<Rightarrow> [[c]] | p # ps \<Rightarrow> (c # p) # ps))"

definition parsePath :: "string option \<Rightarrow> string \<Rightarrow> ParsedTableName" where
  "parsePath driverDatabase target =
     (let parts = split CHR ''.'' target in
      \<lparr> database = or_else (if 1 < length parts then Some (parts ! 0) else None) driverDatabase,
        schema = None,
        tableName = (if 1 < length parts then parts ! 1 else parts ! 0) \<rparr>)"

text \<open>\<open>driverDatabase\<close> is \<open>this.database\<close>; \<open>driverSchema\<close> is \<open>undefined\<close>. The recursive
  calls of the source are on a string, which is the last case.\<close>

fun parseTableName :: "string option \<Rightarrow> target \<Rightarrow> ParsedTableName" where
  "parseTableName driverDatabase (TableOrView name db sch) =
     (let parsed = parsePath driverDatabase name in
      \<lparr> database = or_else (or_else db (database parsed)) driverDatabase,
        schema = or_else (or_else sch (schema parsed)) None,
        tableName = tableName parsed \<rparr>)"
| "parseTableName driverDatabase (ForeignKey referencedTableName referencedDatabase referencedSchema) =
     (let parsed = parsePath driverDatabase referencedTableName in
      \<lparr> database = or_else (or_else referencedDatabase (database parsed)) driverDatabase,
        schema = or_else (or_else referencedSchema (schema parsed)) None,
        tableName = tableName parsed \<rparr>)"
| "parseTableName driverDatabase (Entity tbl db sch) =
     \<lparr> database = or_else db driverDatabase, schema = or_else sch None, tableName = tbl \<rparr>"
| "parseTableName driverDatabase (Path target) = parsePath driverDatabase target"


section \<open>The driver: query parameters\<close>

text \<open>\<open>[A-Za-z0-9_.]\<close>\<close>

definition is_key_char :: "char \<Rightarrow> bool" where
  "is_key_char c =
     (c \<in> set ''ABCDEFGHIJKLMNOPQRSTUVWXYZabcdefghijklmnopqrstuvwxyz0123456789_.'')"

text \<open>
  The pattern \<open>/:(\.\.\.)?([A-Za-z0-9_.]+)/\<close> tried at the start of a string: the result
  is whether the first group matched and the text of the second group. The first group is
  greedy, so \<open>...\<close> after the colon belongs to it whenever a key character follows;
  when none follows, the pattern backtracks and the dots become the key.
\<close>

definition match_here :: "string \<Rightarrow> (bool \<times> string) option" where
  "match_here s =
     (case s of
        [] \<Rightarrow> None
      | c # r \<Rightarrow>
          if c \<noteq> CHR '':'' then None
          else if take 3 r = ''...'' \<and> takeWhile is_key_char (drop 3 r) \<noteq> []
          then Some (True, takeWhile is_key_char (drop 3 r))
          else if takeWhile is_key_char r \<noteq> [] then Some (False, takeWhile is_key_char r)
          else None)"

text \<open>
  What \<open>sql.replace(pattern, callback)\<close> with the \<open>g\<close> flag walks through: the matches
  of the pattern from left to right, each with the arguments the callback receives (the
  matched text, whether the first group matched, the key), and the characters between
  them, which are copied.
\<close>

datatype segment = Copied char | Matched string bool string

fun segments :: "string \<Rightarrow> segment list" where
  "segments [] = []"
| "segments (c # r) =
     (case match_here (c # r) of
        None \<Rightarrow> Copied c # segments r
      | Some (isArray, key) \<Rightarrow>
          Matched (c # take ((if isArray then 3 else 0) + length key) r) isArray key
            # segments (drop ((if isArray then 3 else 0) + length key) r))"

definition createParameter :: "string \<Rightarrow> nat \<Rightarrow> string" where
  "createParameter parameterName index = ''?''"

text \<open>\<open>object[key]\<close> for an own property of a plain object.\<close>

definition property :: "ObjectLiteral \<Rightarrow> string \<Rightarrow> jsval" where
  "property obj key = (case map_of obj key of None \<Rightarrow> JUndefined | Some v \<Rightarrow> v)"

text \<open>
  The callback, with the list \<open>escapedParameters\<close> it pushes onto passed in and out.
  \<open>value.map\<close> exists on arrays; on a Buffer it exists too and is not modelled, as is a
  plain object with a \<open>map\<close> of its own; on anything else the call is a TypeError.
\<close>

definition replace_callback ::
  "ObjectLiteral \<Rightarrow> string \<Rightarrow> bool \<Rightarrow> string \<Rightarrow> jsval list \<Rightarrow> (string \<times> jsval list) outcome" where
  "replace_callback parameters full isArray key escapedParameters =
     (if map_of parameters key = None then Returns (full, escapedParameters)
      else let value = property parameters key in
        if isArray then
          (case value of
             JArr vs \<Rightarrow>
               Returns (join '', '' (map (\<lambda>i. createParameter key (length escapedParameters + i))
                                         [0..<length vs]),
                        escapedParameters @ vs)
           | JBuffer _ \<Rightarrow> Unmodelled
           | JObj ps \<Rightarrow> if map_of ps ''map'' = None then Throws else Unmodelled
           | _ \<Rightarrow> Throws)
        else (case value of
                JFun result \<Rightarrow> Returns (result, escapedParameters)
              | _ \<Rightarrow> Returns (createParameter key (length escapedParameters),
                              escapedParameters @ [value])))"

fun replace_all :: "ObjectLiteral \<Rightarrow> segment list \<Rightarrow> string \<Rightarrow> jsval list \<Rightarrow> (string \<times> jsval list) outcome" where
  "replace_all parameters [] out escapedParameters = Returns (out, escapedParameters)"
| "replace_all parameters (Copied c # segs) out escapedParameters =
     replace_all parameters segs (out @ [c]) escapedParameters"
| "replace_all parameters (Matched full isArray key # segs) out escapedParameters =
     and_then (replace_callback parameters full isArray key escapedParameters)
       (\<lambda>(replacement, escapedParameters'). replace_all parameters segs (out @ replacement) escapedParameters')"

definition escapeQueryWithParameters ::
  "string \<Rightarrow> ObjectLiteral option \<Rightarrow> ObjectLiteral \<Rightarrow> (string \<times> jsval list) outcome" where
  "escapeQueryWithParameters sql parameters nativeParameters =
     (let escapedParameters = map (\<lambda>key. property nativeParameters key) (map fst nativeParameters)
      in case parameters of
           None \<Rightarrow> Returns (sql, escapedParameters)
         | Some ps \<Rightarrow>
             if length (map fst ps) = 0 then Returns (sql, escapedParameters)
             else replace_all ps (segments sql) [] escapedParameters)"

text \<open>
  The specification's wording, token by token: what a token is replaced by and what it
  appends to the value list.
\<close>

fun token_text :: "ObjectLiteral \<Rightarrow> segment \<Rightarrow> string" where
  "token_text parameters (Copied c) = [c]"
| "token_text parameters (Matched full isArray key) =
     (case map_of parameters key of
        None \<Rightarrow> full
      | Some (JFun result) \<Rightarrow> if isArray then [] else result
      | Some (JArr vs) \<Rightarrow> if isArray then join '', '' (replicate (length vs) ''?'') else ''?''
      | Some _ \<Rightarrow> if isArray then [] else ''?'')"

fun token_values :: "ObjectLiteral \<Rightarrow> segment \<Rightarrow> jsval list" where
  "token_values parameters (Copied c) = []"
| "token_values parameters (Matched full isArray key) =
     (case map_of parameters key of
        None \<Rightarrow> []
      | Some (JFun result) \<Rightarrow> []
      | Some (JArr vs) \<Rightarrow> if isArray then vs else [JArr vs]
      | Some v \<Rightarrow> if isArray then [] else [v])"



section \<open>The driver: persisting and hydrating values\<close>


text \<open>\<open>array.indexOf(n) >= 0\<close> for a number \<open>n\<close>: the search is by \<open>===\<close>, under which
  \<open>NaN\<close> equals nothing.\<close>

definition includes_number :: "jsval list \<Rightarrow> jsnum \<Rightarrow> bool" where
  "includes_number xs n = (n \<noteq> NaN \<and> JNum n \<in> set xs)"

text \<open>The argument \<open>numberFromBitString\<close> receives: the characters of a string are its
  code units.\<close>

fun as_bitfield :: "jsval \<Rightarrow> bitfield" where
  "as_bitfield (JBuffer bytes) = BitBuffer bytes"
| "as_bitfield (JStr s) = BitString (map (\<lambda>c. of_nat (of_char c)) s)"
| "as_bitfield _ = BitOther"

text \<open>
  The condition of the enum branch, \<open>(type is enum or simple-enum) && columnMetadata.enum
  && !isNaN(value) && columnMetadata.enum.indexOf(parseInt(value)) >= 0\<close>, evaluated
  from left to right.
\<close>

definition enum_number :: "jsval \<Rightarrow> ColumnMetadata \<Rightarrow> bool outcome" where
  "enum_number value columnMetadata =
     (if cm_type columnMetadata = Named ''enum'' \<or> cm_type columnMetadata = Named ''simple-enum''
      then (case cm_enum columnMetadata of
              None \<Rightarrow> Returns False
            | Some enum \<Rightarrow>
                and_then (js_isNaN value)
                  (\<lambda>nan. if nan then Returns False
                          else and_then (js_parseInt value)
                                 (\<lambda>n. Returns (includes_number enum n))))
      else Returns False)"

definition prepareHydratedValue :: "externals \<Rightarrow> jsval \<Rightarrow> ColumnMetadata \<Rightarrow> jsval outcome" where
  "prepareHydratedValue ext value columnMetadata =
     (if value = JNull \<or> value = JUndefined
      then (case cm_transformer columnMetadata of
              Some transformer \<Rightarrow> transformFrom transformer value
            | None \<Rightarrow> Returns value)
      else
        and_then
          (if cm_type columnMetadata = BooleanCtor \<or>
              cm_type columnMetadata = Named ''bool'' \<or>
              cm_type columnMetadata = Named ''boolean''
           then Returns (JBool (truthy value))
           else if cm_type columnMetadata = Named ''datetime'' \<or> cm_type columnMetadata = DateCtor
           then normalizeHydratedDate ext (case value of JStr s \<Rightarrow> JStr (s @ ''Z'') | _ \<Rightarrow> value)
           else if cm_type columnMetadata = Named ''date'' then mixedDateToDateString ext value
           else if cm_type columnMetadata = Named ''json''
           then (case value of JStr s \<Rightarrow> JSON_parse ext s | _ \<Rightarrow> Returns value)
           else if cm_type columnMetadata = Named ''time'' then mixedTimeToString ext value
           else if cm_type columnMetadata = Named ''simple-array'' then stringToSimpleArray ext value
           else if cm_type columnMetadata = Named ''simple-json'' then stringToSimpleJson ext value
           else and_then (enum_number value columnMetadata)
             (\<lambda>in_enum.
                if in_enum then and_then (js_parseInt value) (\<lambda>n. Returns (JNum n))
                else if cm_type columnMetadata = Named ''set'' then stringToSimpleArray ext value
                else if cm_type columnMetadata = NumberCtor
                then and_then (js_isNaN value)
                       (\<lambda>nan. if \<not> nan then and_then (js_parseInt value) (\<lambda>n. Returns (JNum n))
                               else Returns value)
                else if cm_type columnMetadata = Named ''bit''
                then Returns (JNum (numberFromBitString (as_bitfield value)))
                else Returns value))
          (\<lambda>value'.
             case cm_transformer columnMetadata of
               Some transformer \<Rightarrow> transformFrom transformer value'
             | None \<Rightarrow> Returns value'))"


section \<open>The driver: generated values\<close>

text \<open>
  \<open>insertResult\<close> is absent or a plain object. The first \<open>reduce\<close> runs over the keys of
  the result, the second over \<open>metadata.generatedColumns\<close>; \<open>OrmUtils.mergeDeep\<close> returns
  its first argument, merged.
\<close>

fun reduce_keys ::
  "externals \<Rightarrow> EntityMetadata \<Rightarrow> ObjectLiteral \<Rightarrow> string list \<Rightarrow> ObjectLiteral \<Rightarrow> ObjectLiteral" where
  "reduce_keys ext metadata insertResult [] map' = map'"
| "reduce_keys ext metadata insertResult (key # keys) map' =
     reduce_keys ext metadata insertResult keys
       (case findColumnWithDatabaseName ext metadata key of
          Some column \<Rightarrow> mergeDeep ext map' (createValueMap ext column (property insertResult key))
        | None \<Rightarrow> map')"

fun reduce_generated ::
  "externals \<Rightarrow> jsval \<Rightarrow> nat \<Rightarrow> ColumnMetadata list \<Rightarrow> ObjectLiteral \<Rightarrow> ObjectLiteral outcome" where
  "reduce_generated ext insertId entityIndex [] map' = Returns map'"
| "reduce_generated ext insertId entityIndex (generatedColumn # columns) map' =
     and_then
       (if cm_generationStrategy generatedColumn = Some Increment \<and> truthy insertId
        then and_then (js_parseInt insertId)
               (\<lambda>insertId'. Returns (JNum (js_add insertId' (Num (int entityIndex)))))
        else Returns JUndefined)
       (\<lambda>value.
          reduce_generated ext insertId entityIndex columns
            (mergeDeep ext map' (createValueMap ext generatedColumn value)))"

definition createGeneratedMap ::
  "externals \<Rightarrow> EntityMetadata \<Rightarrow> ObjectLiteral option \<Rightarrow> nat \<Rightarrow> ObjectLiteral option outcome" where
  "createGeneratedMap ext metadata insertResult entityIndex =
     (case insertResult of
        None \<Rightarrow> Returns None
      | Some result \<Rightarrow>
          if property result ''insertId'' = JUndefined
          then Returns (Some (reduce_keys ext metadata result (map fst result) []))
          else and_then
                 (reduce_generated ext (property result ''insertId'') entityIndex
                    (em_generatedColumns metadata) [])
                 (\<lambda>generatedMap.
                    Returns (if 0 < length (map fst generatedMap) then Some generatedMap else None)))"


section \<open>The driver: changed columns\<close>

text \<open>\<open>a || b\<close> where evaluating either side may fail: \<open>b\<close> is evaluated only when
  \<open>a\<close> is false.\<close>

definition or_then :: "bool outcome \<Rightarrow> bool outcome \<Rightarrow> bool outcome" where
  "or_then a b = and_then a (\<lambda>x. if x then Returns True else b)"

definition isColumnChanged :: "externals \<Rightarrow> TableColumn \<Rightarrow> ColumnMetadata \<Rightarrow> bool outcome" where
  "isColumnChanged ext tableColumn columnMetadata =
     or_then
       (Returns
          (tc_name tableColumn \<noteq> cm_databaseName columnMetadata \<or>
           tc_type tableColumn \<noteq> normalizeType columnMetadata \<or>
           tc_length tableColumn \<noteq> getColumnLength columnMetadata \<or>
           tc_width tableColumn \<noteq> cm_width columnMetadata \<or>
           (cm_precision columnMetadata \<noteq> Undefined \<and>
              tc_precision tableColumn \<noteq> cm_precision columnMetadata) \<or>
           (cm_scale columnMetadata \<noteq> None \<and>
              tc_scale tableColumn \<noteq> cm_scale columnMetadata) \<or>
           tc_zerofill tableColumn \<noteq> cm_zerofill columnMetadata \<or>
           tc_unsigned tableColumn \<noteq> cm_unsigned columnMetadata \<or>
           tc_asExpression tableColumn \<noteq> cm_asExpression columnMetadata \<or>
           tc_generatedType tableColumn \<noteq> cm_generatedType columnMetadata \<or>
           tc_comment tableColumn \<noteq> escapeComment (cm_comment columnMetadata)))
       (or_then
          (and_then (normalizeDefault ext columnMetadata)
             (\<lambda>d. Returns (\<not> compareDefaultValues d (tc_default tableColumn))))
          (or_then
             (case tc_enum tableColumn of
                None \<Rightarrow> Returns False
              | Some tableEnum \<Rightarrow>
                  (case cm_enum columnMetadata of
                     None \<Rightarrow> Returns False
                   | Some enum \<Rightarrow>
                       and_then (all_returned (map js_String enum))
                         (\<lambda>strings. Returns (\<not> isArraysEqual ext tableEnum strings))))
             (Returns
                (tc_onUpdate tableColumn \<noteq> normalizeDatetimeFunction (cm_onUpdate columnMetadata) \<or>
                 tc_isPrimary tableColumn \<noteq> cm_isPrimary columnMetadata \<or>
                 \<not> compareNullableValues columnMetadata tableColumn \<or>
                 tc_isUnique tableColumn \<noteq> normalizeIsUnique columnMetadata \<or>
                 (cm_generationStrategy columnMetadata \<noteq> Some Uuid \<and>
                    tc_isGenerated tableColumn \<noteq> cm_isGenerated columnMetadata)))))"

text \<open>\<open>xs.filter(p)\<close> for a predicate whose evaluation may fail.\<close>

fun filter_outcome :: "('a \<Rightarrow> bool outcome) \<Rightarrow> 'a list \<Rightarrow> 'a list outcome" where
  "filter_outcome p [] = Returns []"
| "filter_outcome p (x # xs) =
     and_then (p x)
       (\<lambda>keep. and_then (filter_outcome p xs) (\<lambda>rest. Returns (if keep then x # rest else rest)))"

definition findChangedColumns ::
  "externals \<Rightarrow> TableColumn list \<Rightarrow> ColumnMetadata list \<Rightarrow> ColumnMetadata list outcome" where
  "findChangedColumns ext tableColumns columnMetadatas =
     filter_outcome
       (\<lambda>columnMetadata.
          case find (\<lambda>c. tc_name c = cm_databaseName columnMetadata) tableColumns of
            None \<Rightarrow> Returns False
          | Some tableColumn \<Rightarrow> isColumnChanged ext tableColumn columnMetadata)
       columnMetadatas"


text \<open>
  The specification's wording of the comparison (section 4.8): a desired column is
  identical to a live column in every compared field. Precision and scale are compared
  only when the desired column declares them; the enum lists only when both sides have
  one; \<open>onUpdate\<close> after both sides have passed through \<open>normalizeDatetimeFunction\<close>;
  \<open>isGenerated\<close> only when the desired generation strategy is not uuid.
\<close>

definition in_sync :: "externals \<Rightarrow> TableColumn \<Rightarrow> ColumnMetadata \<Rightarrow> bool" where
  "in_sync ext live desired =
     (tc_name live = cm_databaseName desired \<and>
      tc_type live = normalizeType desired \<and>
      tc_length live = getColumnLength desired \<and>
      tc_width live = cm_width desired \<and>
      (cm_precision desired = Undefined \<or> tc_precision live = cm_precision desired) \<and>
      (cm_scale desired = None \<or> tc_scale live = cm_scale desired) \<and>
      tc_zerofill live = cm_zerofill desired \<and>
      tc_unsigned live = cm_unsigned desired \<and>
      tc_asExpression live = cm_asExpression desired \<and>
      tc_generatedType live = cm_generatedType desired \<and>
      tc_comment live = escapeComment (cm_comment desired) \<and>
      (case normalizeDefault ext desired of
         Returns d \<Rightarrow> compareDefaultValues d (tc_default live)
       | _ \<Rightarrow> False) \<and>
      (case tc_enum live of
         None \<Rightarrow> True
       | Some liveEnum \<Rightarrow>
           (case cm_enum desired of
              None \<Rightarrow> True
            | Some enum \<Rightarrow>
                (case all_returned (map js_String enum) of
                   Returns strings \<Rightarrow> isArraysEqual ext liveEnum strings
                 | _ \<Rightarrow> False))) \<and>
      normalizeDatetimeFunction (tc_onUpdate live) = normalizeDatetimeFunction (cm_onUpdate desired) \<and>
      tc_isPrimary live = cm_isPrimary desired \<and>
      tc_isNullable live = cm_isNullable desired \<and>
      tc_isUnique live = normalizeIsUnique desired \<and>
      (cm_generationStrategy desired = Some Uuid \<or>
       tc_isGenerated live = cm_isGenerated desired))"

text \<open>
  The live column's \<open>onUpdate\<close> is in the normal form of \<open>normalizeDatetimeFunction\<close>, as
  schema introspection reports it (\<open>CURRENT_TIMESTAMP\<close>, with its precision if it has
  one, and not \<open>now()\<close>).
\<close>

definition normal_onUpdate :: "TableColumn \<Rightarrow> bool" where
  "normal_onUpdate live = (normalizeDatetimeFunction (tc_onUpdate live) = tc_onUpdate live)"

text \<open>
  The truth value of the source's disjunction \<open>isColumnChanged\<close>, negated: every one of
  its comparisons finds the two sides equal. The source normalises the \<open>onUpdate\<close> of the
  desired column only.
\<close>

definition unchanged :: "externals \<Rightarrow> TableColumn \<Rightarrow> ColumnMetadata \<Rightarrow> bool" where
  "unchanged ext live desired =
     (tc_name live = cm_databaseName desired \<and>
      tc_type live = normalizeType desired \<and>
      tc_length live = getColumnLength desired \<and>
      tc_width live = cm_width desired \<and>
      (cm_precision desired = Undefined \<or> tc_precision live = cm_precision desired) \<and>
      (cm_scale desired = None \<or> tc_scale live = cm_scale desired) \<and>
      tc_zerofill live = cm_zerofill desired \<and>
      tc_unsigned live = cm_unsigned desired \<and>
      tc_asExpression live = cm_asExpression desired \<and>
      tc_generatedType live = cm_generatedType desired \<and>
      tc_comment live = escapeComment (cm_comment desired) \<and>
      (case normalizeDefault ext desired of
         Returns d \<Rightarrow> compareDefaultValues d (tc_default live)
       | _ \<Rightarrow> False) \<and>
      (case tc_enum live of
         None \<Rightarrow> True
       | Some liveEnum \<Rightarrow>
           (case cm_enum desired of
              None \<Rightarrow> True
            | Some enum \<Rightarrow>
                (case all_returned (map js_String enum) of
                   Returns strings \<Rightarrow> isArraysEqual ext liveEnum strings
                 | _ \<Rightarrow> False))) \<and>
      tc_onUpdate live = normalizeDatetimeFunction (cm_onUpdate desired) \<and>
      tc_isPrimary live = cm_isPrimary desired \<and>
      tc_isNullable live = cm_isNullable desired \<and>
      tc_isUnique live = normalizeIsUnique desired \<and>
      (cm_generationStrategy desired = Some Uuid \<or>
       tc_isGenerated live = cm_isGenerated desired))"

text \<open>A desired column whose default and enum entries have a modelled text, so that
  every comparison of the column can be evaluated.\<close>

definition comparable :: "externals \<Rightarrow> ColumnMetadata \<Rightarrow> bool" where
  "comparable ext desired =
     ((case normalizeDefault ext desired of Returns d \<Rightarrow> True | _ \<Rightarrow> False) \<and>
      (case cm_enum desired of
         None \<Rightarrow> True
       | Some enum \<Rightarrow>
           (case all_returned (map js_String enum) of Returns strings \<Rightarrow> True | _ \<Rightarrow> False)))"

text \<open>The live column that \<open>findChangedColumns\<close> pairs with a desired column: the first
  one whose name is the desired column's database name.\<close>

definition counterpart :: "TableColumn list \<Rightarrow> ColumnMetadata \<Rightarrow> TableColumn option" where
  "counterpart tableColumns desired =
     find (\<lambda>c. tc_name c = cm_databaseName desired) tableColumns"

text \<open>
  The membership of the result: a desired column that has a live counterpart and
  differs from it in a compared field, or whose counterpart's \<open>onUpdate\<close> is not in
  normal form.
\<close>

definition changed :: "externals \<Rightarrow> TableColumn list \<Rightarrow> ColumnMetadata \<Rightarrow> bool" where
  "changed ext tableColumns desired =
     (case counterpart tableColumns desired of
        None \<Rightarrow> False
      | Some live \<Rightarrow> \<not> in_sync ext live desired \<or> \<not> normal_onUpdate live)"

text \<open>The live column that schema introspection reports for \<open>blank_column\<close> once it
  has been created: a \<open>varchar(255)\<close>.\<close>

definition blank_live :: TableColumn where
  "blank_live =
     \<lparr> tc_name = ''c'', tc_type = ''varchar'', tc_length = ''255'', tc_width = None,
       tc_precision = Undefined, tc_scale = None, tc_zerofill = False, tc_unsigned = False,
       tc_asExpression = None, tc_generatedType = None, tc_comment = None, tc_default = None,
       tc_enum = None, tc_onUpdate = None, tc_isPrimary = False, tc_isNullable = False,
       tc_isUnique = False, tc_isGenerated = False \<rparr>"

section \<open>The round trip, and a reference instance of the absent helpers\<close>


text \<open>\<open>Object.assign(target, {[key]: value})\<close>.\<close>

fun assign :: "string \<Rightarrow> jsval \<Rightarrow> ObjectLiteral \<Rightarrow> ObjectLiteral" where
  "assign key v [] = [(key, v)]"
| "assign key v ((key', v') # rest) =
     (if key = key' then (key, v) # rest else (key', v') # assign key v rest)"

text \<open>
  Modelled from the spec: \<open>OrmUtils.mergeDeep\<close> is not among the sources. Section 4.7
  calls it a deep merge of a column's contribution into the result: a nested object is
  merged into the object already under its key, any other value is assigned to its key.
\<close>

fun merge_deep :: "ObjectLiteral \<Rightarrow> ObjectLiteral \<Rightarrow> ObjectLiteral" where
  "merge_deep target [] = target"
| "merge_deep target ((key, JObj b) # source) =
     merge_deep
       (assign key
          (JObj (merge_deep (case map_of target key of Some (JObj a) \<Rightarrow> a | _ \<Rightarrow> []) b))
          target)
       source"
| "merge_deep target ((key, v) # source) = merge_deep (assign key v target) source"

subsection \<open>The runtime's \<open>JSON\<close>\<close>

text \<open>
  A character that \<open>JSON.stringify\<close> writes as it is and \<open>JSON.parse\<close> reads as it is:
  any character other than the double quote, the backslash and the control characters.
\<close>

definition json_plain :: "char \<Rightarrow> bool" where
  "json_plain c = (c \<noteq> CHR 0x22 \<and> c \<noteq> CHR 0x5C \<and> (32::nat) \<le> of_char c)"

definition json_quote :: "string \<Rightarrow> string" where
  "json_quote s = CHR 0x22 # s @ [CHR 0x22]"

text \<open>\<open>typeof v === "function"\<close>.\<close>

fun is_callable :: "jsval \<Rightarrow> bool" where
  "is_callable (JFun _) = True"
| "is_callable _ = False"

text \<open>
  The text \<open>JSON.stringify\<close> produces for a value: no white space; a number that is not
  finite prints as \<open>null\<close>; \<open>undefined\<close> and functions print as \<open>null\<close> in an array and
  are left out of an object. Strings with characters that need an escape, objects with a
  \<open>toJSON\<close> method, Dates and Buffers are not modelled.
\<close>

fun JSON_text :: "jsval \<Rightarrow> string outcome" where
  "JSON_text JNull = Returns ''null''"
| "JSON_text (JBool b) = Returns (if b then ''true'' else ''false'')"
| "JSON_text (JNum (Num i)) = Number_toString (Num i)"
| "JSON_text (JNum _) = Returns ''null''"
| "JSON_text (JStr s) = (if list_all json_plain s then Returns (json_quote s) else Unmodelled)"
| "JSON_text (JArr xs) =
     and_then
       (all_returned
          (map (\<lambda>x. if x = JUndefined \<or> is_callable x then Returns ''null'' else JSON_text x) xs))
       (\<lambda>parts. Returns (''['' @ join '','' parts @ '']''))"
| "JSON_text (JObj ps) =
     (if list_ex (\<lambda>p. fst p = ''toJSON'' \<and> is_callable (snd p)) ps then Unmodelled
      else and_then
             (all_returned
                (map (\<lambda>p. if snd p = JUndefined \<or> is_callable (snd p) then Returns None
                          else if list_all json_plain (fst p)
                          then and_then (JSON_text (snd p))
                                 (\<lambda>t. Returns (Some (json_quote (fst p) @ '':'' @ t)))
                          else Unmodelled) ps))
             (\<lambda>members. Returns (''{'' @ join '','' (List.map_filter id members) @ ''}'')))"
| "JSON_text _ = Unmodelled"

text \<open>\<open>JSON.stringify(v)\<close>: \<open>undefined\<close> for \<open>undefined\<close> and for a function.\<close>

definition json_stringify :: "jsval \<Rightarrow> jsval outcome" where
  "json_stringify v =
     (if v = JUndefined \<or> is_callable v then Returns JUndefined
      else and_then (JSON_text v) (\<lambda>t. Returns (JStr t)))"

text \<open>
  \<open>JSON.parse\<close>, on the texts without white space, escapes, fractions and exponents,
  which include every text \<open>JSON_text\<close> produces; any other text is not modelled. An
  object is read when its keys are distinct and none starts with a digit, so that the
  order of the keys in the text is the order of \<open>Object.keys\<close>. The recursion carries the
  number of calls it may still make; \<open>json_parse\<close> starts it with more than it can use.
\<close>

definition JSON_number :: "string \<Rightarrow> (jsval \<times> string) outcome" where
  "JSON_number s =
     (let negative = (s \<noteq> [] \<and> hd s = CHR ''-'');
          s1 = (if negative then tl s else s);
          ds = takeWhile is_digit s1;
          rest = dropWhile is_digit s1;
          mathInt = int (digits_value 10 ds)
      in if ds = [] \<or> (1 < length ds \<and> hd ds = CHR ''0'') \<or>
            (rest \<noteq> [] \<and> hd rest \<in> set ''.eE'')
         then Unmodelled
         else Returns (JNum (to_double (if negative then - mathInt else mathInt)), rest))"

fun JSON_value :: "nat \<Rightarrow> string \<Rightarrow> (jsval \<times> string) outcome"
and JSON_elements :: "nat \<Rightarrow> string \<Rightarrow> (jsval list \<times> string) outcome"
and JSON_members :: "nat \<Rightarrow> string \<Rightarrow> ((string \<times> jsval) list \<times> string) outcome" where
  "JSON_value 0 s = Unmodelled"
| "JSON_value (Suc fuel) s =
     (if take 4 s = ''null'' then Returns (JNull, drop 4 s)
      else if take 4 s = ''true'' then Returns (JBool True, drop 4 s)
      else if take 5 s = ''false'' then Returns (JBool False, drop 5 s)
      else (case s of
              [] \<Rightarrow> Unmodelled
            | c # r \<Rightarrow>
                if c = CHR 0x22
                then (let body = takeWhile (\<lambda>c. c \<noteq> CHR 0x22) r;
                          rest = dropWhile (\<lambda>c. c \<noteq> CHR 0x22) r
                      in if list_all json_plain body \<and> rest \<noteq> []
                         then Returns (JStr body, tl rest) else Unmodelled)
                else if c = CHR ''[''
                then (if r \<noteq> [] \<and> hd r = CHR '']'' then Returns (JArr [], tl r)
                      else and_then (JSON_elements fuel r) (\<lambda>(xs, rest). Returns (JArr xs, rest)))
                else if c = CHR ''{''
                then (if r \<noteq> [] \<and> hd r = CHR ''}'' then Returns (JObj [], tl r)
                      else and_then (JSON_members fuel r)
                             (\<lambda>(ps, rest). if distinct (map fst ps) then Returns (JObj ps, rest)
                                            else Unmodelled))
                else JSON_number s))"
| "JSON_elements 0 s = Unmodelled"
| "JSON_elements (Suc fuel) s =
     and_then (JSON_value fuel s)
       (\<lambda>(v, rest).
          case rest of
            [] \<Rightarrow> Unmodelled
          | c # r \<Rightarrow>
              if c = CHR '']'' then Returns ([v], r)
              else if c = CHR '',''
              then and_then (JSON_elements fuel r) (\<lambda>(vs, rest'). Returns (v # vs, rest'))
              else Unmodelled)"
| "JSON_members 0 s = Unmodelled"
| "JSON_members (Suc fuel) s =
     (case s of
        [] \<Rightarrow> Unmodelled
      | q # r \<Rightarrow>
          (let key = takeWhile (\<lambda>c. c \<noteq> CHR 0x22) r;
               after = dropWhile (\<lambda>c. c \<noteq> CHR 0x22) r
           in if q = CHR 0x22 \<and> list_all json_plain key \<and> (key = [] \<or> \<not> is_digit (hd key)) \<and>
                 take 2 after = [CHR 0x22, CHR '':'']
              then and_then (JSON_value fuel (drop 2 after))
                     (\<lambda>(v, rest).
                        case rest of
                          [] \<Rightarrow> Unmodelled
                        | c # r' \<Rightarrow>
                            if c = CHR ''}'' then Returns ([(key, v)], r')
                            else if c = CHR '',''
                            then and_then (JSON_members fuel r')
                                   (\<lambda>(ps, rest'). Returns ((key, v) # ps, rest'))
                            else Unmodelled)
              else Unmodelled))"

definition json_parse :: "string \<Rightarrow> jsval outcome" where
  "json_parse s =
     and_then (JSON_value (Suc (length s)) s)
       (\<lambda>(v, rest). if rest = [] then Returns v else Unmodelled)"



text \<open>What may follow a value in a text: nothing, a comma or a closing bracket.\<close>

definition closes :: "string \<Rightarrow> bool" where
  "closes rest = (rest = [] \<or> hd rest \<in> set '',]}'')"



text \<open>\<open>v.length === 1 ? "0" + v : v\<close>\<close>

definition pad_zero :: "string \<Rightarrow> string" where
  "pad_zero v = (if length v = 1 then CHR ''0'' # v else v)"

subsection \<open>The absent helpers\<close>

text \<open>
  Modelled from the spec: the helpers of \<open>DateUtils\<close> and \<open>OrmUtils\<close> and the two
  metadata methods are not among the sources. This instance follows what sections 4.3,
  4.4, 4.7 and 4.8 say of them: a date string is the normal form of a date-only value and
  is left alone; time-string normalisation pads the single-character parts of a time
  string with a zero; date normalisation turns a string into the Date it denotes and
  leaves a Date alone; a simple array is the comma-delimited string of its elements; the
  simple-json helpers are \<open>JSON\<close>; two enum lists are equal as sets; a column
  contributes its value under its property name; a column is found by its database name.
  The text of a Date is the runtime's and is not modelled. The instance serves for the
  concrete examples and for the round trip through the helpers.
\<close>

definition reference_externals :: externals where
  "reference_externals =
     \<lparr> JSON_stringify = json_stringify,
       JSON_parse = json_parse,
       mixedDateToDateString = (\<lambda>v. case v of JDate d \<Rightarrow> Unmodelled | _ \<Rightarrow> Returns v),
       mixedDateToTimeString = (\<lambda>v. case v of JDate d \<Rightarrow> Unmodelled | _ \<Rightarrow> Returns v),
       mixedDateToDate = (\<lambda>v. case v of JStr s \<Rightarrow> Returns (JDate s) | _ \<Rightarrow> Returns v),
       mixedTimeToString =
         (\<lambda>v. case v of
                JDate d \<Rightarrow> Unmodelled
              | JStr s \<Rightarrow> Returns (JStr (join '':'' (map pad_zero (split CHR '':'' s))))
              | _ \<Rightarrow> Returns v),
       normalizeHydratedDate =
         (\<lambda>v. case v of JStr s \<Rightarrow> Returns (if s = [] then v else JDate s) | _ \<Rightarrow> Returns v),
       simpleArrayToString =
         (\<lambda>v. case v of
                JArr xs \<Rightarrow> and_then (all_returned (map js_String xs))
                             (\<lambda>parts. Returns (JStr (join '','' parts)))
              | _ \<Rightarrow> Returns v),
       stringToSimpleArray =
         (\<lambda>v. case v of
                JStr s \<Rightarrow> Returns (if s = [] then JArr [] else JArr (map JStr (split CHR '','' s)))
              | _ \<Rightarrow> Returns v),
       simpleJsonToString = json_stringify,
       stringToSimpleJson = (\<lambda>v. case v of JStr s \<Rightarrow> json_parse s | _ \<Rightarrow> Returns v),
       isArraysEqual = (\<lambda>a b. set a = set b),
       mergeDeep = merge_deep,
       createValueMap = (\<lambda>column v. [(cm_propertyName column, v)]),
       findColumnWithDatabaseName =
         (\<lambda>metadata key. find (\<lambda>c. cm_databaseName c = key) (em_columns metadata)) \<rparr>"


section \<open>Verified properties\<close>

subsection \<open>Arithmetic below \<open>2 ^ 53\<close> is exact\<close>

lemma bit_length_numeral: "bit_length (numeral k) = Suc (bit_length (numeral k div 2))"
  by (subst bit_length.simps) simp

lemma bit_length_small: "bit_length 0 = 0" "bit_length 1 = 1" "bit_length (Suc 0) = 1"
  by (simp_all add: bit_length.simps)

lemmas js_eval = Math_pow2_def to_double_def round_double_def Let_def
  bit_length_numeral bit_length_small

lemma round_double_small: "n < 2 ^ 53 \<Longrightarrow> round_double n = n"
  by (simp add: round_double_def)

lemma to_double_small: "\<bar>x\<bar> < 2 ^ 53 \<Longrightarrow> to_double x = Num x"
proof -
  assume "\<bar>x\<bar> < 2 ^ 53"
  then have n: "nat \<bar>x\<bar> < 2 ^ 53" by (simp add: nat_less_iff)
  have "(2::nat) ^ 53 < 2 ^ 1024" by simp
  with n have "\<not> 2 ^ 1024 \<le> nat \<bar>x\<bar>" by linarith
  with n show ?thesis
    by (simp add: to_double_def round_double_small Let_def)
qed

lemma accumulate_exact:
  "length bs \<le> 128 \<Longrightarrow> v + big_endian bs < 2 ^ 53 \<Longrightarrow>
   accumulate bs (Num (int v)) = Num (int (v + big_endian bs))"
proof (induction bs arbitrary: v)
  case Nil
  then show ?case by simp
next
  case (Cons b bs)
  let ?p = "b * 256 ^ length bs"
  have len: "8 * length bs < 1024" using Cons.prems(1) by simp
  have p: "v + ?p < 2 ^ 53" using Cons.prems(2) by simp
  have pw: "(256::nat) ^ length bs = 2 ^ (8 * length bs)"
    by (simp add: power_mult)
  have "\<bar>int b * 2 ^ (8 * length bs)\<bar> = int ?p"
    by (simp add: pw)
  also have "\<dots> < 2 ^ 53" using p by (simp flip: of_nat_less_iff[where 'a=int])
  finally have "to_double (int b * 2 ^ (8 * length bs)) = Num (int b * 2 ^ (8 * length bs))"
    by (rule to_double_small)
  then have mul: "js_mul (Num (int b)) (Math_pow2 (8 * length bs)) = Num (int ?p)"
    using len by (simp add: Math_pow2_def pw)
  have "\<bar>int v + int ?p\<bar> < 2 ^ 53"
    using p by (simp flip: of_nat_less_iff[where 'a=int])
  then have add: "js_add (Num (int v)) (Num (int ?p)) = Num (int (v + ?p))"
    by (simp add: to_double_small)
  have "accumulate (b # bs) (Num (int v)) = accumulate bs (Num (int (v + ?p)))"
    by (simp only: accumulate.simps mul add)
  also have "\<dots> = Num (int ((v + ?p) + big_endian bs))"
    using Cons.prems by (intro Cons.IH) simp_all
  finally show ?case by (simp add: add.assoc)
qed

lemma low_byte_mask: "(255 :: 16 word) = mask 8"
  by (simp add: mask_eq_exp_minus_1)

lemma low_byte: "unat ((c :: 16 word) AND 255) = unat (ucast c :: 8 word)"
  by (simp add: low_byte_mask unsigned_ucast_eq unsigned_take_bit_eq flip: take_bit_eq_mask)

lemma same_bytes:
  "length s = length b \<Longrightarrow> \<forall>i<length b. ucast (s ! i :: 16 word) = (b ! i :: 8 word) \<Longrightarrow>
     map (\<lambda>c. unat (c AND 255)) s = map unat b"
  by (simp add: list_eq_iff_nth_eq low_byte)


lemma numberFromBitString_strings_agree:
  "numberFromBitString_strings (BitString s) = Returns (numberFromBitString (BitString s))"
  by simp


subsection \<open>Eight bytes of ones\<close>

text \<open>
  C5, as stated: an 8-byte all-ones sequence decodes to exactly \<open>18446744073709551615\<close>.
  It does not. The accumulator is a double; after the seventh byte the exact sum
  \<open>2 ^ 64 - 256\<close> has 56 significant bits and is rounded to \<open>2 ^ 64\<close>, and adding the last
  byte does not move it.
\<close>

theorem eight_ones_decode_is_rounded:
  "numberFromBitString (BitBuffer [255, 255, 255, 255, 255, 255, 255, 255])
     \<noteq> Num 18446744073709551615"
  by (simp add: js_eval)

text \<open>
  C5, amended: an 8-byte all-ones sequence, as a buffer or as the equivalent 8-character
  string, decodes to \<open>18446744073709551616 = 2 ^ 64\<close>, the double nearest to the exact
  sum; the value is neither wrapped nor truncated to 24 or 32 bits.
\<close>

theorem numberFromBitString_eight_ones:
  "numberFromBitString (BitBuffer [255, 255, 255, 255, 255, 255, 255, 255])
     = Num 18446744073709551616 \<and>
   numberFromBitString (BitString [255, 255, 255, 255, 255, 255, 255, 255])
     = Num 18446744073709551616 \<and>
   (18446744073709551616 :: int) = 2 ^ 64"
  by (simp add: js_eval)


subsection \<open>Buffer and string decode alike\<close>

text \<open>
  C6, as stated: both branches yield the unsigned big-endian integer of the bytes, for
  every byte sequence. They agree with each other, but for seven bytes of ones their
  common result is \<open>2 ^ 56\<close>, not the big-endian integer \<open>2 ^ 56 - 1\<close>.
\<close>

theorem numberFromBitString_not_big_endian:
  "numberFromBitString (BitBuffer [255, 255, 255, 255, 255, 255, 255])
     \<noteq> Num (int (big_endian (map unat [255, 255, 255, 255, 255, 255, 255 :: 8 word])))"
  by (simp add: js_eval)

text \<open>
  C6, amended: for every byte sequence \<open>b\<close> and every string \<open>s\<close> of the same length
  whose \<open>i\<close>-th character has \<open>b[i]\<close> as its low 8 bits, the string branch and the buffer
  branch return the same number; that number is the unsigned big-endian integer of \<open>b\<close>
  whenever the integer is below \<open>2 ^ 53\<close> and \<open>b\<close> has at most 128 bytes; in particular
  \<open>[0xFF, 0xFF, 0xFF, 0xFF]\<close> and the equivalent 4-character string decode to
  \<open>4294967295\<close>.
\<close>

theorem numberFromBitString_representation_independent:
  assumes "length s = length b" and "\<forall>i<length b. ucast (s ! i) = b ! i"
  shows "numberFromBitString (BitString s) = numberFromBitString (BitBuffer b) \<and>
         (length b \<le> 128 \<and> big_endian (map unat b) < 2 ^ 53 \<longrightarrow>
            numberFromBitString (BitBuffer b) = Num (int (big_endian (map unat b)))) \<and>
         numberFromBitString (BitBuffer [255, 255, 255, 255]) = Num 4294967295 \<and>
         numberFromBitString (BitString [255, 255, 255, 255]) = Num 4294967295"
proof (intro conjI impI)
  show "numberFromBitString (BitString s) = numberFromBitString (BitBuffer b)"
    using same_bytes [OF assms] by simp
next
  assume "length b \<le> 128 \<and> big_endian (map unat b) < 2 ^ 53"
  then show "numberFromBitString (BitBuffer b) = Num (int (big_endian (map unat b)))"
    using accumulate_exact [of "map unat b" 0] by simp
next
  show "numberFromBitString (BitBuffer [255, 255, 255, 255]) = Num 4294967295"
    by (simp add: js_eval)
next
  show "numberFromBitString (BitString [255, 255, 255, 255]) = Num 4294967295"
    by (simp add: js_eval)
qed

theorem numberFromBitString_representation_independent_witness:
  "numberFromBitString (BitString [0x1FF, 0x00, 0xAB12, 0x34])
     = numberFromBitString (BitBuffer [0xFF, 0x00, 0x12, 0x34]) \<and>
   numberFromBitString (BitBuffer [0xFF, 0x00, 0x12, 0x34]) = Num 4278194740"
proof -
  have len: "length [0x1FF, 0x00, 0xAB12, 0x34 :: 16 word]
               = length [0xFF, 0x00, 0x12, 0x34 :: 8 word]"
    by simp
  have low: "\<forall>i<length [0xFF, 0x00, 0x12, 0x34 :: 8 word].
               ucast ([0x1FF, 0x00, 0xAB12, 0x34 :: 16 word] ! i)
                 = [0xFF, 0x00, 0x12, 0x34 :: 8 word] ! i"
    by (simp add: All_less_Suc)
  have small: "length [0xFF, 0x00, 0x12, 0x34 :: 8 word] \<le> 128 \<and>
               big_endian (map unat [0xFF, 0x00, 0x12, 0x34 :: 8 word]) < 2 ^ 53"
    by simp
  show ?thesis
    using numberFromBitString_representation_independent [OF len low] small by simp
qed


subsection \<open>Column lengths\<close>

text \<open>
  C7, as stated: without an explicit length the result is \<open>"36"\<close> exactly when the
  column is a uuid-generated primary key. The function does not look at \<open>isPrimary\<close>: a
  uuid-generated \<open>varchar\<close> column that is not primary gets \<open>"36"\<close>, not \<open>"255"\<close>.
\<close>

theorem getColumnLength_uuid_not_primary:
  "getColumnLength (blank_column\<lparr>cm_type := Named ''varchar'', cm_isGenerated := True,
                                  cm_generationStrategy := Some Uuid\<rparr>) = ''36'' \<and>
   cm_isPrimary (blank_column\<lparr>cm_type := Named ''varchar'', cm_isGenerated := True,
                               cm_generationStrategy := Some Uuid\<rparr>) = False"
  by (simp add: getColumnLength_def blank_column_def)

text \<open>
  C7, amended: \<open>getColumnLength\<close> returns the explicit length when the column declares a
  non-empty one; otherwise \<open>"36"\<close> exactly when the generation strategy is uuid, primary
  key or not; otherwise \<open>"255"\<close> for the generic string marker, \<open>varchar\<close>, \<open>nvarchar\<close>,
  \<open>national varchar\<close> and \<open>varbinary\<close>; otherwise the empty string.
\<close>

theorem getColumnLength_cases:
  "getColumnLength column =
     (if cm_length column \<noteq> [] then cm_length column
      else if cm_generationStrategy column = Some Uuid then ''36''
      else if cm_type column \<in> {StringCtor, Named ''varchar'', Named ''nvarchar'',
                                  Named ''national varchar'', Named ''varbinary''} then ''255''
      else [])"
  by (simp add: getColumnLength_def split: ColumnType.splits)


subsection \<open>Default values\<close>

lemma dropWhile_replicate_append:
  "P x \<Longrightarrow> dropWhile P (replicate m x @ ys) = dropWhile P ys"
  by (induction m) simp_all

lemma dropWhile_hd: "ys \<noteq> [] \<Longrightarrow> \<not> P (hd ys) \<Longrightarrow> dropWhile P (ys @ zs) = ys @ zs"
  by (cases ys) simp_all

lemma strip_quotes_core:
  assumes "core = [] \<or> (hd core \<noteq> CHR 0x27 \<and> last core \<noteq> CHR 0x27)"
  shows "strip_quotes (replicate m (CHR 0x27) @ core @ replicate n (CHR 0x27)) = core"
proof (cases "core = []")
  case True
  then show ?thesis
    by (simp add: strip_quotes_def dropWhile_replicate_append)
next
  case False
  with assms have h: "hd core \<noteq> CHR 0x27" and l: "last core \<noteq> CHR 0x27" by auto
  have 1: "dropWhile (\<lambda>c. c = CHR 0x27) (replicate m (CHR 0x27) @ core @ replicate n (CHR 0x27))
             = core @ replicate n (CHR 0x27)"
    using False h by (simp add: dropWhile_replicate_append dropWhile_hd)
  have 2: "dropWhile (\<lambda>c. c = CHR 0x27) (rev (core @ replicate n (CHR 0x27))) = rev core"
    using False l dropWhile_hd [of "rev core" "\<lambda>c. c = CHR 0x27" "[]"]
    by (simp add: dropWhile_replicate_append hd_rev)
  show ?thesis by (simp only: strip_quotes_def 1 2 rev_rev_ident)
qed

text \<open>
  C9, as stated: one layer of quotes is stripped from each side. The pattern \<open>'+\<close>
  strips the whole run of quotes at each end: \<open>''a''\<close> and \<open>'a'\<close> compare equal, although
  they differ after the removal of one layer.
\<close>

theorem compareDefaultValues_not_one_layer:
  "compareDefaultValues (Some (quoted (quoted ''a''))) (Some (quoted ''a'')) \<and>
   strip_one_layer (quoted (quoted ''a'')) \<noteq> strip_one_layer (quoted ''a'')"
  by (simp add: strip_quotes_def quoted_def strip_one_layer_def)

text \<open>
  C9, amended: when both arguments are strings, all the quote characters at the start
  and all those at the end of each side are stripped before the two are compared for
  equality (so two strings that are any number of quotes around cores that neither start
  nor end with a quote are equal exactly when their cores are); \<open>'CURRENT'\<close> equals
  \<open>CURRENT\<close>, and \<open>'a'\<close> does not equal \<open>'b'\<close>; when either side is absent the comparison
  is plain equality of the unmodified values.
\<close>

theorem compareDefaultValues_strips_runs:
  assumes "c1 = [] \<or> (hd c1 \<noteq> CHR 0x27 \<and> last c1 \<noteq> CHR 0x27)"
    and "c2 = [] \<or> (hd c2 \<noteq> CHR 0x27 \<and> last c2 \<noteq> CHR 0x27)"
  shows "compareDefaultValues
           (Some (replicate m1 (CHR 0x27) @ c1 @ replicate n1 (CHR 0x27)))
           (Some (replicate m2 (CHR 0x27) @ c2 @ replicate n2 (CHR 0x27))) = (c1 = c2) \<and>
         compareDefaultValues (Some a) (Some b) = (strip_quotes a = strip_quotes b) \<and>
         compareDefaultValues None y = (None = y) \<and>
         compareDefaultValues x None = (x = None) \<and>
         compareDefaultValues (Some (quoted ''CURRENT'')) (Some ''CURRENT'') \<and>
         \<not> compareDefaultValues (Some (quoted ''a'')) (Some (quoted ''b''))"
proof (intro conjI)
  show "compareDefaultValues
           (Some (replicate m1 (CHR 0x27) @ c1 @ replicate n1 (CHR 0x27)))
           (Some (replicate m2 (CHR 0x27) @ c2 @ replicate n2 (CHR 0x27))) = (c1 = c2)"
    by (simp only: compareDefaultValues.simps strip_quotes_core [OF assms(1)]
          strip_quotes_core [OF assms(2)])
  show "compareDefaultValues (Some a) (Some b) = (strip_quotes a = strip_quotes b)"
    by simp
  show "compareDefaultValues None y = (None = y)"
    by simp
  show "compareDefaultValues x None = (x = None)"
    by (cases x) simp_all
  show "compareDefaultValues (Some (quoted ''CURRENT'')) (Some ''CURRENT'')"
    by (simp add: strip_quotes_def quoted_def)
  show "\<not> compareDefaultValues (Some (quoted ''a'')) (Some (quoted ''b''))"
    by (simp add: strip_quotes_def quoted_def)
qed

theorem compareDefaultValues_strips_runs_witness:
  "compareDefaultValues (Some (replicate 3 (CHR 0x27) @ ''now()'' @ replicate 3 (CHR 0x27)))
                        (Some (replicate 0 (CHR 0x27) @ ''now()'' @ replicate 1 (CHR 0x27)))
     = (''now()'' = ''now()'')"
proof -
  have core: "''now()'' = [] \<or> (hd ''now()'' \<noteq> CHR 0x27 \<and> last ''now()'' \<noteq> CHR 0x27)"
    by simp
  show ?thesis
    using compareDefaultValues_strips_runs [OF core core, of 3 3 0 1] by (rule conjunct1)
qed


subsection \<open>Table names\<close>

lemma split_dotted: "sep \<notin> set a \<Longrightarrow> split sep (a @ sep # r) = a # split sep r"
  by (induction a) (auto split: list.splits)

text \<open>
  C10, as stated: for every string with two or more dots the segment before the first
  dot is the database. When that segment is empty it is not: the driver's own database
  is.
\<close>

theorem parseTableName_empty_first_segment:
  "database (parseTableName (Some ''main'') (Path ''.b.c'')) = Some ''main'' \<and>
   tableName (parseTableName (Some ''main'') (Path ''.b.c'')) = ''b''"
  by (simp add: parsePath_def or_else_def)

text \<open>
  C10, amended: for every plain-string target with two or more dots, that is
  \<open>a.b.rest\<close> with no dot in \<open>a\<close> and none in \<open>b\<close>, \<open>parseTableName\<close> returns \<open>a\<close> as the
  database when \<open>a\<close> is not empty and the driver's database when it is, \<open>b\<close> as the table
  name and no schema; \<open>rest\<close> is discarded and no error is raised (\<open>"a.b.c"\<close> gives
  database \<open>a\<close> and table name \<open>b\<close>).
\<close>

theorem parseTableName_two_dots:
  assumes "CHR ''.'' \<notin> set a" and "CHR ''.'' \<notin> set b"
  shows "parseTableName driverDatabase (Path (a @ ''.'' @ b @ ''.'' @ rest)) =
           \<lparr> database = (if a = [] then driverDatabase else Some a),
             schema = None, tableName = b \<rparr>"
proof -
  have "split CHR ''.'' (a @ ''.'' @ b @ ''.'' @ rest) = a # b # split CHR ''.'' rest"
    using assms by (simp add: split_dotted)
  then show ?thesis
    by (simp add: parsePath_def or_else_def)
qed

theorem parseTableName_two_dots_witness:
  "parseTableName None (Path ''a.b.c'') = \<lparr> database = Some ''a'', schema = None, tableName = ''b'' \<rparr>"
proof -
  have a: "CHR ''.'' \<notin> set ''a''" and b: "CHR ''.'' \<notin> set ''b''" by simp_all
  show ?thesis
    using parseTableName_two_dots [OF a b, of None "''c''"] by simp
qed


subsection \<open>Query parameters\<close>












lemma concat_copied [simp]:
  "concat (map (token_text ps \<circ> Copied) s) = s"
  "concat (map (token_values ps \<circ> Copied) s) = []"
  by (induction s) simp_all




text \<open>Outside the specification's contract: a spread token bound to a function is not
  an array, and the call \<open>value.map\<close> throws before the function branch is reached.\<close>

lemma spread_of_function_throws:
  "escapeQueryWithParameters ''IN (:...f)'' (Some [(''f'', JFun ''1, 2'')]) [] = Throws"
  by (simp add: escapeQueryWithParameters_def match_here_def is_key_char_def
        replace_callback_def property_def and_then_def)




subsection \<open>Sequencing\<close>

lemma and_then_Returns [simp]: "and_then (Returns x) f = f x"
  by (simp add: and_then_def)

lemma and_then_return [simp]: "and_then m Returns = m"
  by (cases m) (simp_all add: and_then_def)


subsection \<open>Generated values\<close>

text \<open>
  The two absent helpers, as the reference instance has them: a column contributes its
  value under its property name, and merging such a contribution assigns the value to
  the key, also when the value is \<open>undefined\<close>.
\<close>

lemma assign_fresh: "key \<notin> fst ` set m \<Longrightarrow> assign key v m = m @ [(key, v)]"
  by (induction m) auto

lemma assign_not_empty: "assign key v m \<noteq> []"
  by (cases m) (auto split: if_splits)

lemma reduce_generated_assign:
  assumes "truthy insertId" "js_parseInt insertId = Returns n"
    and "createValueMap ext = (\<lambda>column v. [(cm_propertyName column, v)])"
    and "mergeDeep ext = merge_deep"
  shows "reduce_generated ext insertId entityIndex columns m =
     Returns (foldl (\<lambda>m c. assign (cm_propertyName c)
                (if cm_generationStrategy c = Some Increment
                 then JNum (js_add n (Num (int entityIndex))) else JUndefined) m) m columns)"
  using assms(1,2) by (induction columns arbitrary: m) (simp_all add: assms(3,4))

lemma foldl_assign_not_empty:
  "columns \<noteq> [] \<Longrightarrow> foldl (\<lambda>m c. assign (k c) (v c) m) m columns \<noteq> []"
proof (induction columns arbitrary: m)
  case Nil
  then show ?case by simp
next
  case (Cons c columns)
  show ?case
  proof (cases columns)
    case Nil
    then show ?thesis by (simp add: assign_not_empty)
  next
    case (Cons c' cs)
    with Cons.IH show ?thesis by simp
  qed
qed

lemma foldl_assign_distinct:
  "distinct (map k columns) \<Longrightarrow> fst ` set m \<inter> k ` set columns = {} \<Longrightarrow>
   foldl (\<lambda>m c. assign (k c) (v c) m) m columns = m @ map (\<lambda>c. (k c, v c)) columns"
proof (induction columns arbitrary: m)
  case Nil
  then show ?case by simp
next
  case (Cons c columns)
  have fresh: "k c \<notin> fst ` set m" using Cons.prems(2) by auto
  have "fst ` set (m @ [(k c, v c)]) \<inter> k ` set columns = {}"
    using Cons.prems by auto
  with Cons.IH [of "m @ [(k c, v c)]"] Cons.prems(1) fresh
  show ?case by (simp add: assign_fresh)
qed

text \<open>
  C3, as stated: no value is populated for a column with a non-increment strategy, and
  the result is absent when no generated value was merged. For an entity whose only
  generated column is a uuid column, an insert result with \<open>insertId = 100\<close> gives a map
  that has the column's key, bound to \<open>undefined\<close>: the map is not empty and it is
  returned.
\<close>

theorem createGeneratedMap_uuid_only_not_absent:
  "createGeneratedMap reference_externals
     \<lparr> em_columns = [blank_column\<lparr>cm_propertyName := ''u'', cm_isGenerated := True,
                                     cm_generationStrategy := Some Uuid\<rparr>],
       em_generatedColumns = [blank_column\<lparr>cm_propertyName := ''u'', cm_isGenerated := True,
                                              cm_generationStrategy := Some Uuid\<rparr>] \<rparr>
     (Some [(''insertId'', JNum (Num 100))]) 0
   = Returns (Some [(''u'', JUndefined)])"
  by (simp add: createGeneratedMap_def reference_externals_def blank_column_def property_def)

text \<open>
  C3, amended: with a truthy \<open>insertId\<close> in the insert result, \<open>createGeneratedMap\<close>
  assigns to every increment-strategy generated column the value \<open>parseInt(insertId) +
  entityIndex\<close> and to every generated column with another strategy the value
  \<open>undefined\<close>, under the column's property name and in the order of the generated
  columns (which have distinct property names); the result is absent exactly when the
  entity has no generated column; an absent insert result gives absent. With
  \<open>insertId = 100\<close> and one increment column \<open>id\<close>, the entities at batch indices 0 and
  1 get the ids 100 and 101. The helpers are the reference instance's: a column
  contributes its value under its property name, and the merge assigns it.
\<close>

theorem createGeneratedMap_increment:
  assumes "property result ''insertId'' = insertId" "truthy insertId"
    and "js_parseInt insertId = Returns n"
    and "createValueMap ext = (\<lambda>column v. [(cm_propertyName column, v)])"
    and "mergeDeep ext = merge_deep"
  shows "(distinct (map cm_propertyName (em_generatedColumns metadata)) \<longrightarrow>
          createGeneratedMap ext metadata (Some result) entityIndex =
            Returns (if em_generatedColumns metadata = [] then None
                     else Some (map (\<lambda>c. (cm_propertyName c,
                                  if cm_generationStrategy c = Some Increment
                                  then JNum (js_add n (Num (int entityIndex))) else JUndefined))
                                (em_generatedColumns metadata)))) \<and>
         (createGeneratedMap ext metadata (Some result) entityIndex = Returns None
            \<longleftrightarrow> em_generatedColumns metadata = []) \<and>
         createGeneratedMap ext metadata None entityIndex = Returns None \<and>
         createGeneratedMap reference_externals
             \<lparr> em_columns = [blank_column\<lparr>cm_propertyName := ''id'', cm_isGenerated := True, cm_generationStrategy := Some Increment\<rparr>],
               em_generatedColumns = [blank_column\<lparr>cm_propertyName := ''id'', cm_isGenerated := True, cm_generationStrategy := Some Increment\<rparr>] \<rparr>
             (Some [(''insertId'', JNum (Num 100))]) 0
           = Returns (Some [(''id'', JNum (Num 100))]) \<and>
         createGeneratedMap reference_externals
             \<lparr> em_columns = [blank_column\<lparr>cm_propertyName := ''id'', cm_isGenerated := True, cm_generationStrategy := Some Increment\<rparr>],
               em_generatedColumns = [blank_column\<lparr>cm_propertyName := ''id'', cm_isGenerated := True, cm_generationStrategy := Some Increment\<rparr>] \<rparr>
             (Some [(''insertId'', JNum (Num 100))]) 1
           = Returns (Some [(''id'', JNum (Num 101))])"
proof -
  let ?generated = "\<lambda>c. if cm_generationStrategy c = Some Increment
                     then JNum (js_add n (Num (int entityIndex))) else JUndefined"
  let ?merged = "foldl (\<lambda>m c. assign (cm_propertyName c) (?generated c) m) []
                   (em_generatedColumns metadata)"
  have "insertId \<noteq> JUndefined" using assms(2) by auto
  then have r: "createGeneratedMap ext metadata (Some result) entityIndex =
           Returns (if ?merged = [] then None else Some ?merged)"
    using assms(1) by (simp add: createGeneratedMap_def reduce_generated_assign [OF assms(2-5)])
  have e: "?merged = [] \<longleftrightarrow> em_generatedColumns metadata = []"
    using foldl_assign_not_empty [of "em_generatedColumns metadata" cm_propertyName ?generated "[]"]
    by auto
  have d: "distinct (map cm_propertyName (em_generatedColumns metadata)) \<Longrightarrow>
           ?merged = map (\<lambda>c. (cm_propertyName c, ?generated c)) (em_generatedColumns metadata)"
    using foldl_assign_distinct [of cm_propertyName "em_generatedColumns metadata" "[]" ?generated]
    by simp
  show ?thesis
    apply (intro conjI impI)
    subgoal using r e d by simp
    subgoal using r e by simp
    subgoal by (simp add: createGeneratedMap_def)
    subgoal by (simp add: createGeneratedMap_def reference_externals_def blank_column_def
                  property_def to_double_def round_double_def)
    subgoal by (simp add: createGeneratedMap_def reference_externals_def blank_column_def
                  property_def to_double_def round_double_def)
    done
qed

theorem createGeneratedMap_increment_witness:
  "createGeneratedMap reference_externals
     \<lparr> em_columns = [blank_column\<lparr>cm_propertyName := ''id'', cm_isGenerated := True,
                                     cm_generationStrategy := Some Increment\<rparr>,
                      blank_column\<lparr>cm_propertyName := ''u'', cm_isGenerated := True,
                                     cm_generationStrategy := Some Uuid\<rparr>],
       em_generatedColumns = [blank_column\<lparr>cm_propertyName := ''id'', cm_isGenerated := True,
                                              cm_generationStrategy := Some Increment\<rparr>,
                               blank_column\<lparr>cm_propertyName := ''u'', cm_isGenerated := True,
                                              cm_generationStrategy := Some Uuid\<rparr>] \<rparr>
     (Some [(''affectedRows'', JNum (Num 2)), (''insertId'', JStr ''100'')]) 1
   = Returns (Some [(''id'', JNum (Num 101)), (''u'', JUndefined)])"
proof -
  have p: "property [(''affectedRows'', JNum (Num 2)), (''insertId'', JStr ''100'')] ''insertId''
             = JStr ''100''"
    by (simp add: property_def)
  have t: "truthy (JStr ''100'')" by simp
  have n: "js_parseInt (JStr ''100'') = Returns (Num 100)"
    by (simp add: parseInt_string_def is_space_def is_digit_def hex_value_def digits_value_def
          to_double_def round_double_def)
  have c: "createValueMap reference_externals = (\<lambda>column v. [(cm_propertyName column, v)])"
    by (simp add: reference_externals_def)
  have m: "mergeDeep reference_externals = merge_deep"
    by (simp add: reference_externals_def)
  show ?thesis
    using createGeneratedMap_increment [OF p t n c m, where entityIndex = 1]
    by (simp add: blank_column_def to_double_def round_double_def)
qed


subsection \<open>The UTC marker\<close>

text \<open>
  C8, as stated: a string that already carries the UTC marker is not given a second
  one. The function appends \<open>Z\<close> to every string: the Date is built from a text that
  ends in \<open>ZZ\<close>.
\<close>

theorem prepareHydratedValue_datetime_second_marker:
  "prepareHydratedValue reference_externals (JStr ''2024-01-01T00:00:00.000Z'')
     (blank_column\<lparr>cm_type := Named ''datetime''\<rparr>)
   = Returns (JDate ''2024-01-01T00:00:00.000ZZ'')"
  by (simp add: prepareHydratedValue_def reference_externals_def blank_column_def)

text \<open>
  C8, amended: when hydrating a datetime or generic-date column, \<open>prepareHydratedValue\<close>
  appends the UTC marker to every wire value that is a string, whether or not the string
  already ends with one, and hands the result to date normalisation, so that a string
  that already carries the marker is given a second one; a wire value that is not a
  string is handed to date normalisation unchanged, and \<open>null\<close> and \<open>undefined\<close> are not
  normalised at all. The transformer of the column, when it has one, is applied to the
  result.
\<close>

theorem prepareHydratedValue_datetime_appends_marker:
  assumes "cm_type col = Named ''datetime'' \<or> cm_type col = DateCtor"
  shows "prepareHydratedValue ext (JStr s) col =
           and_then (normalizeHydratedDate ext (JStr (s @ ''Z'')))
             (\<lambda>date. case cm_transformer col of
                        Some transformer \<Rightarrow> transformFrom transformer date
                      | None \<Rightarrow> Returns date) \<and>
         prepareHydratedValue ext (JStr (s @ ''Z'')) col =
           and_then (normalizeHydratedDate ext (JStr (s @ ''ZZ'')))
             (\<lambda>date. case cm_transformer col of
                        Some transformer \<Rightarrow> transformFrom transformer date
                      | None \<Rightarrow> Returns date) \<and>
         (js_typeof v \<noteq> ''string'' \<and> v \<noteq> JNull \<and> v \<noteq> JUndefined \<longrightarrow>
            prepareHydratedValue ext v col =
              and_then (normalizeHydratedDate ext v)
                (\<lambda>date. case cm_transformer col of
                           Some transformer \<Rightarrow> transformFrom transformer date
                         | None \<Rightarrow> Returns date)) \<and>
         (v = JNull \<or> v = JUndefined \<longrightarrow>
            prepareHydratedValue ext v col =
              (case cm_transformer col of
                 Some transformer \<Rightarrow> transformFrom transformer v
               | None \<Rightarrow> Returns v))"
  using assms by (cases v) (auto simp: prepareHydratedValue_def)

theorem prepareHydratedValue_datetime_appends_marker_witness:
  "prepareHydratedValue reference_externals (JStr ''2024-01-01 10:00:00'')
     (blank_column\<lparr>cm_type := Named ''datetime'',
        cm_transformer := Some \<lparr>transformTo = Returns, transformFrom = (\<lambda>v. Returns (JArr [v]))\<rparr>\<rparr>)
     = Returns (JArr [JDate ''2024-01-01 10:00:00Z'']) \<and>
   prepareHydratedValue reference_externals (JDate ''2024-01-01T10:00:00.000Z'')
     (blank_column\<lparr>cm_type := Named ''datetime'',
        cm_transformer := Some \<lparr>transformTo = Returns, transformFrom = (\<lambda>v. Returns (JArr [v]))\<rparr>\<rparr>)
     = Returns (JArr [JDate ''2024-01-01T10:00:00.000Z''])"
proof -
  let ?col = "blank_column\<lparr>cm_type := Named ''datetime'',
        cm_transformer := Some \<lparr>transformTo = Returns, transformFrom = (\<lambda>v. Returns (JArr [v]))\<rparr>\<rparr>"
  have t: "cm_type ?col = Named ''datetime'' \<or> cm_type ?col = DateCtor"
    by simp
  show ?thesis
    using prepareHydratedValue_datetime_appends_marker [OF t, of reference_externals
            "''2024-01-01 10:00:00''" "JDate ''2024-01-01T10:00:00.000Z''"]
    by (simp add: reference_externals_def)
qed


subsection \<open>Decimal numerals read back\<close>




































subsection \<open>\<open>JSON\<close> texts read back\<close>














lemma closes_simps [simp]:
  "closes []" "closes (CHR '','' # r)" "closes (CHR '']'' # r)" "closes (CHR ''}'' # r)"
  by (simp_all add: closes_def)























subsection \<open>Delimited strings\<close>









subsection \<open>The round trip\<close>












subsection \<open>Changed columns\<close>

lemma or_then_Returns [simp]:
  "or_then (Returns a) b = (if a then Returns True else b)"
  by (simp add: or_then_def)

lemma toUpperCase_append: "toUpperCase (a @ b) = toUpperCase a @ toUpperCase b"
  by (simp add: toUpperCase_def)

lemma toUpperCase_keyword: "toUpperCase ''CURRENT_TIMESTAMP'' = ''CURRENT_TIMESTAMP''"
  by (simp add: toUpperCase_def)

lemma contains_prefix: "contains (p @ s) p"
proof (cases "p @ s")
  case Nil
  then show ?thesis by simp
next
  case (Cons a list)
  have "take (length p) (a # list) = p"
    unfolding Cons [symmetric] by simp
  then have "contains (a # list) p" by simp
  then show ?thesis unfolding Cons .
qed

lemma match_precision_form:
  "match_precision v = Some p \<Longrightarrow>
   \<exists>ds. p = CHR ''('' # ds @ '')'' \<and> ds \<noteq> [] \<and> list_all is_digit ds"
proof (induction v)
  case Nil
  then show ?case by simp
next
  case (Cons c v)
  then show ?case
    by (auto simp: Let_def list_all_iff split: if_splits dest: set_takeWhileD)
qed

lemma match_precision_keyword:
  assumes "ds \<noteq> []" "list_all is_digit ds"
  shows "match_precision (''CURRENT_TIMESTAMP'' @ CHR ''('' # ds @ '')'') = Some (CHR ''('' # ds @ '')'')"
proof -
  have "\<not> is_digit CHR '')''" by (simp add: is_digit_def)
  then have t: "takeWhile is_digit (ds @ '')'') = ds" "dropWhile is_digit (ds @ '')'') = '')''"
    using assms(2) by (simp_all add: list_all_iff takeWhile_append2 dropWhile_append2)
  show ?thesis using assms(1) by (simp add: t Let_def is_digit_def)
qed

lemma match_precision_bare: "match_precision ''CURRENT_TIMESTAMP'' = None"
  by (simp add: Let_def is_digit_def)

text \<open>Normalising a normalised text changes nothing.\<close>

lemma normalizeDatetimeFunction_idem:
  "normalizeDatetimeFunction (normalizeDatetimeFunction v) = normalizeDatetimeFunction v"
proof (cases v)
  case None
  then show ?thesis by (simp add: normalizeDatetimeFunction_def)
next
  case (Some s)
  show ?thesis
  proof (cases "s \<noteq> [] \<and> (contains (toUpperCase s) ''CURRENT_TIMESTAMP'' \<or> contains (toUpperCase s) ''NOW'')")
    case False
    with Some show ?thesis by (auto simp: normalizeDatetimeFunction_def)
  next
    case True
    show ?thesis
    proof (cases "match_precision s")
      case None
      have k: "contains (toUpperCase ''CURRENT_TIMESTAMP'') ''CURRENT_TIMESTAMP''"
        unfolding toUpperCase_keyword using contains_prefix [of "''CURRENT_TIMESTAMP''" "[]"] by simp
      from True Some None have "normalizeDatetimeFunction v = Some ''CURRENT_TIMESTAMP''"
        by (auto simp: normalizeDatetimeFunction_def)
      moreover have "normalizeDatetimeFunction (Some ''CURRENT_TIMESTAMP'') = Some ''CURRENT_TIMESTAMP''"
        unfolding normalizeDatetimeFunction_def using k by (simp add: match_precision_bare)
      ultimately show ?thesis by simp
    next
      case (Some p)
      from match_precision_form [OF Some] obtain ds where
        p: "p = CHR ''('' # ds @ '')''" and ds: "ds \<noteq> []" "list_all is_digit ds" by blast
      have k: "contains (toUpperCase (''CURRENT_TIMESTAMP'' @ p)) ''CURRENT_TIMESTAMP''"
        unfolding toUpperCase_append toUpperCase_keyword by (rule contains_prefix)
      from True \<open>v = Some s\<close> Some have n: "normalizeDatetimeFunction v = Some (''CURRENT_TIMESTAMP'' @ p)"
        by (auto simp: normalizeDatetimeFunction_def)
      have "normalizeDatetimeFunction (Some (''CURRENT_TIMESTAMP'' @ p)) = Some (''CURRENT_TIMESTAMP'' @ p)"
        unfolding normalizeDatetimeFunction_def using k match_precision_keyword [OF ds]
        by (simp add: p)
      with n show ?thesis by simp
    qed
  qed
qed

lemma now_normal: "normalizeDatetimeFunction (Some ''now()'') = Some ''CURRENT_TIMESTAMP''"
  by code_simp

text \<open>The source's comparison is the specification's on a live column whose \<open>onUpdate\<close>
  is in normal form, and fails on every other live column.\<close>

lemma onUpdate_split:
  "(tc_onUpdate tc = normalizeDatetimeFunction (cm_onUpdate cm)) =
   (normalizeDatetimeFunction (tc_onUpdate tc) = normalizeDatetimeFunction (cm_onUpdate cm) \<and>
    normalizeDatetimeFunction (tc_onUpdate tc) = tc_onUpdate tc)"
  using normalizeDatetimeFunction_idem [of "cm_onUpdate cm"] by auto

lemma unchanged_iff:
  "unchanged ext tc cm = (in_sync ext tc cm \<and> normal_onUpdate tc)"
  unfolding unchanged_def in_sync_def normal_onUpdate_def onUpdate_split [of tc cm]
  by blast

lemma changed_iff:
  "changed ext tcs cm =
     (case counterpart tcs cm of None \<Rightarrow> False | Some live \<Rightarrow> \<not> unchanged ext live cm)"
  by (simp add: changed_def unchanged_iff split: option.splits)

lemma comparable_default:
  "comparable ext cm \<Longrightarrow> \<exists>d. normalizeDefault ext cm = Returns d"
  by (auto simp: comparable_def split: outcome.splits)

lemma comparable_enum:
  "comparable ext cm \<Longrightarrow> cm_enum cm = Some enum \<Longrightarrow>
   \<exists>strings. all_returned (map js_String enum) = Returns strings"
  by (auto simp: comparable_def split: outcome.splits)

lemma isColumnChanged_blocks:
  fixes ext tc cm
  defines "A \<equiv> tc_name tc \<noteq> cm_databaseName cm \<or>
           tc_type tc \<noteq> normalizeType cm \<or>
           tc_length tc \<noteq> getColumnLength cm \<or>
           tc_width tc \<noteq> cm_width cm \<or>
           (cm_precision cm \<noteq> Undefined \<and> tc_precision tc \<noteq> cm_precision cm) \<or>
           (cm_scale cm \<noteq> None \<and> tc_scale tc \<noteq> cm_scale cm) \<or>
           tc_zerofill tc \<noteq> cm_zerofill cm \<or>
           tc_unsigned tc \<noteq> cm_unsigned cm \<or>
           tc_asExpression tc \<noteq> cm_asExpression cm \<or>
           tc_generatedType tc \<noteq> cm_generatedType cm \<or>
           tc_comment tc \<noteq> escapeComment (cm_comment cm)"
    and "L \<equiv> tc_onUpdate tc \<noteq> normalizeDatetimeFunction (cm_onUpdate cm) \<or>
                 tc_isPrimary tc \<noteq> cm_isPrimary cm \<or>
                 \<not> compareNullableValues cm tc \<or>
                 tc_isUnique tc \<noteq> normalizeIsUnique cm \<or>
                 (cm_generationStrategy cm \<noteq> Some Uuid \<and>
                    tc_isGenerated tc \<noteq> cm_isGenerated cm)"
    and "D \<equiv> normalizeDefault ext cm"
    and "E \<equiv> (case cm_enum cm of None \<Rightarrow> None
                | Some enum \<Rightarrow> (case tc_enum tc of None \<Rightarrow> None
                    | Some tableEnum \<Rightarrow> Some (tableEnum, all_returned (map js_String enum))))"
  shows "isColumnChanged ext tc cm =
           or_then (Returns A)
             (or_then (and_then D (\<lambda>d. Returns (\<not> compareDefaultValues d (tc_default tc))))
                (or_then (case E of None \<Rightarrow> Returns False
                          | Some (tableEnum, strs) \<Rightarrow>
                              and_then strs (\<lambda>strings. Returns (\<not> isArraysEqual ext tableEnum strings)))
                   (Returns L)))"
    and "unchanged ext tc cm =
           (\<not> A \<and> (case D of Returns d \<Rightarrow> compareDefaultValues d (tc_default tc) | _ \<Rightarrow> False) \<and>
            (case E of None \<Rightarrow> True
             | Some (tableEnum, strs) \<Rightarrow>
                 (case strs of Returns strings \<Rightarrow> isArraysEqual ext tableEnum strings | _ \<Rightarrow> False)) \<and>
            \<not> L)"
proof -
  show "isColumnChanged ext tc cm =
           or_then (Returns A)
             (or_then (and_then D (\<lambda>d. Returns (\<not> compareDefaultValues d (tc_default tc))))
                (or_then (case E of None \<Rightarrow> Returns False
                          | Some (tableEnum, strs) \<Rightarrow>
                              and_then strs (\<lambda>strings. Returns (\<not> isArraysEqual ext tableEnum strings)))
                   (Returns L)))"
    unfolding isColumnChanged_def A_def L_def D_def E_def
    by (cases "cm_enum cm"; cases "tc_enum tc") (simp_all only: option.case prod.case)
  have conj_cong3: "\<And>a b c d a' d'. a = a' \<Longrightarrow> d = d' \<Longrightarrow> (a \<and> b \<and> c \<and> d) = (a' \<and> b \<and> c \<and> d')"
    by simp
  have a: "(tc_name tc = cm_databaseName cm \<and>
      tc_type tc = normalizeType cm \<and>
      tc_length tc = getColumnLength cm \<and>
      tc_width tc = cm_width cm \<and>
      (cm_precision cm = Undefined \<or> tc_precision tc = cm_precision cm) \<and>
      (cm_scale cm = None \<or> tc_scale tc = cm_scale cm) \<and>
      tc_zerofill tc = cm_zerofill cm \<and>
      tc_unsigned tc = cm_unsigned cm \<and>
      tc_asExpression tc = cm_asExpression cm \<and>
      tc_generatedType tc = cm_generatedType cm \<and>
      tc_comment tc = escapeComment (cm_comment cm)) = (\<not> A)"
    unfolding A_def by (simp only: de_Morgan_disj de_Morgan_conj not_not)
  have l: "(tc_onUpdate tc = normalizeDatetimeFunction (cm_onUpdate cm) \<and>
      tc_isPrimary tc = cm_isPrimary cm \<and>
      tc_isNullable tc = cm_isNullable cm \<and>
      tc_isUnique tc = normalizeIsUnique cm \<and>
      (cm_generationStrategy cm = Some Uuid \<or>
       tc_isGenerated tc = cm_isGenerated cm)) = (\<not> L)"
    unfolding L_def compareNullableValues_def
    by (simp only: de_Morgan_disj de_Morgan_conj not_not) (simp only: eq_commute)
  have e: "(case tc_enum tc of
         None \<Rightarrow> True
       | Some liveEnum \<Rightarrow>
           (case cm_enum cm of
              None \<Rightarrow> True
            | Some enum \<Rightarrow>
                (case all_returned (map js_String enum) of
                   Returns strings \<Rightarrow> isArraysEqual ext liveEnum strings
                 | _ \<Rightarrow> False))) =
        (case E of None \<Rightarrow> True
             | Some (tableEnum, strs) \<Rightarrow>
                 (case strs of Returns strings \<Rightarrow> isArraysEqual ext tableEnum strings | _ \<Rightarrow> False))"
    unfolding E_def
    by (cases "cm_enum cm"; cases "tc_enum tc") (simp_all only: option.case prod.case)
  show "unchanged ext tc cm =
           (\<not> A \<and> (case D of Returns d \<Rightarrow> compareDefaultValues d (tc_default tc) | _ \<Rightarrow> False) \<and>
            (case E of None \<Rightarrow> True
             | Some (tableEnum, strs) \<Rightarrow>
                 (case strs of Returns strings \<Rightarrow> isArraysEqual ext tableEnum strings | _ \<Rightarrow> False)) \<and>
            \<not> L)"
    unfolding unchanged_def e D_def [symmetric]
    by (simp only: a [symmetric] l [symmetric] conj_assoc)
qed

lemma four_blocks:
  assumes "or_then (Returns A)
             (or_then (and_then D (\<lambda>d. Returns (\<not> cmp d)))
                (or_then (case E of None \<Rightarrow> Returns False
                          | Some (tableEnum, strs) \<Rightarrow>
                              and_then strs (\<lambda>strings. Returns (\<not> eq tableEnum strings)))
                   (Returns L))) = Returns b"
  shows "b = (\<not> (\<not> A \<and> (case D of Returns d \<Rightarrow> cmp d | _ \<Rightarrow> False) \<and>
            (case E of None \<Rightarrow> True
             | Some (tableEnum, strs) \<Rightarrow>
                 (case strs of Returns strings \<Rightarrow> eq tableEnum strings | _ \<Rightarrow> False)) \<and>
            \<not> L))"
  using assms
  by (cases A; cases D; cases E; cases L)
     (auto simp: or_then_def and_then_def split: outcome.splits if_splits)

lemma isColumnChanged_returns:
  assumes "isColumnChanged ext tc cm = Returns b"
  shows "b = (\<not> unchanged ext tc cm)"
  using assms unfolding isColumnChanged_blocks by (rule four_blocks)

lemma unchanged_returns:
  assumes "unchanged ext tc cm"
  shows "isColumnChanged ext tc cm = Returns False"
proof -
  from assms obtain d where d: "normalizeDefault ext cm = Returns d"
    and c: "compareDefaultValues d (tc_default tc)"
    unfolding unchanged_def by (cases "normalizeDefault ext cm") simp_all
  have first: "\<not> (tc_name tc \<noteq> cm_databaseName cm \<or>
           tc_type tc \<noteq> normalizeType cm \<or>
           tc_length tc \<noteq> getColumnLength cm \<or>
           tc_width tc \<noteq> cm_width cm \<or>
           (cm_precision cm \<noteq> Undefined \<and> tc_precision tc \<noteq> cm_precision cm) \<or>
           (cm_scale cm \<noteq> None \<and> tc_scale tc \<noteq> cm_scale cm) \<or>
           tc_zerofill tc \<noteq> cm_zerofill cm \<or>
           tc_unsigned tc \<noteq> cm_unsigned cm \<or>
           tc_asExpression tc \<noteq> cm_asExpression cm \<or>
           tc_generatedType tc \<noteq> cm_generatedType cm \<or>
           tc_comment tc \<noteq> escapeComment (cm_comment cm))"
    using assms by (simp add: unchanged_def)
  have last: "\<not> (tc_onUpdate tc \<noteq> normalizeDatetimeFunction (cm_onUpdate cm) \<or>
                 tc_isPrimary tc \<noteq> cm_isPrimary cm \<or>
                 \<not> compareNullableValues cm tc \<or>
                 tc_isUnique tc \<noteq> normalizeIsUnique cm \<or>
                 (cm_generationStrategy cm \<noteq> Some Uuid \<and>
                    tc_isGenerated tc \<noteq> cm_isGenerated cm))"
    using assms by (simp add: unchanged_def compareNullableValues_def)
  have enum: "(case tc_enum tc of
                None \<Rightarrow> Returns False
              | Some tableEnum \<Rightarrow>
                  (case cm_enum cm of
                     None \<Rightarrow> Returns False
                   | Some enum \<Rightarrow>
                       and_then (all_returned (map js_String enum))
                         (\<lambda>strings. Returns (\<not> isArraysEqual ext tableEnum strings)))) = Returns False"
    using assms unfolding unchanged_def
    by (auto split: option.splits outcome.splits)
  show ?thesis
    unfolding isColumnChanged_def
    by (simp only: first last enum d c or_then_Returns and_then_Returns if_False not_True_eq_False)
qed

lemma four_blocks_total:
  assumes "D = Returns d"
    and "\<And>tableEnum strs. E = Some (tableEnum, strs) \<Longrightarrow> \<exists>strings. strs = Returns strings"
  shows "\<exists>b. or_then (Returns A)
             (or_then (and_then D (\<lambda>d. Returns (\<not> cmp d)))
                (or_then (case E of None \<Rightarrow> Returns False
                          | Some (tableEnum, strs) \<Rightarrow>
                              and_then strs (\<lambda>strings. Returns (\<not> eq tableEnum strings)))
                   (Returns L))) = Returns b"
proof (cases E)
  case None
  then show ?thesis by (auto simp: assms(1))
next
  case (Some p)
  obtain tableEnum strs where p: "p = (tableEnum, strs)" by (cases p)
  with Some assms(2) obtain strings where "strs = Returns strings" by blast
  with Some p show ?thesis by (auto simp: assms(1))
qed

lemma isColumnChanged_comparable:
  assumes "comparable ext cm"
  shows "isColumnChanged ext tc cm = Returns (\<not> unchanged ext tc cm)"
proof -
  obtain d where d: "normalizeDefault ext cm = Returns d"
    using comparable_default [OF assms] by blast
  have "\<exists>b. isColumnChanged ext tc cm = Returns b"
    unfolding isColumnChanged_blocks
  proof (rule four_blocks_total [OF d])
    fix tableEnum strs
    assume "(case cm_enum cm of None \<Rightarrow> None
             | Some enum \<Rightarrow> (case tc_enum tc of None \<Rightarrow> None
                 | Some tableEnum \<Rightarrow> Some (tableEnum, all_returned (map js_String enum))))
            = Some (tableEnum, strs)"
    then obtain enum where "cm_enum cm = Some enum" "strs = all_returned (map js_String enum)"
      by (auto split: option.splits)
    with comparable_enum [OF assms] show "\<exists>strings. strs = Returns strings" by simp
  qed
  then obtain b where b: "isColumnChanged ext tc cm = Returns b" by blast
  with isColumnChanged_returns [OF b] show ?thesis by simp
qed

lemma filter_outcome_pure:
  "\<forall>x\<in>set xs. p x = Returns (q x) \<Longrightarrow> filter_outcome p xs = Returns (filter q xs)"
  by (induction xs) simp_all

lemma filter_outcome_returns:
  "filter_outcome p xs = Returns r \<Longrightarrow> \<forall>x\<in>set xs. \<exists>b. p x = Returns b"
proof (induction xs arbitrary: r)
  case Nil
  then show ?case by simp
next
  case (Cons x xs)
  from Cons.prems obtain keep where k: "p x = Returns keep"
    by (cases "p x") (simp_all add: and_then_def)
  with Cons.prems obtain rest where "filter_outcome p xs = Returns rest"
    by (cases "filter_outcome p xs") (simp_all add: and_then_def)
  with Cons.IH k show ?case by auto
qed

lemma findChangedColumns_pointwise:
  assumes "\<forall>cm\<in>set cms. \<forall>tc. counterpart tcs cm = Some tc \<longrightarrow>
             isColumnChanged ext tc cm = Returns (\<not> unchanged ext tc cm)"
  shows "findChangedColumns ext tcs cms = Returns (filter (changed ext tcs) cms)"
  unfolding findChangedColumns_def
  by (rule filter_outcome_pure)
     (use assms in \<open>auto simp: changed_iff counterpart_def split: option.splits\<close>)

lemma findChangedColumns_comparable:
  assumes "\<forall>cm\<in>set cms. comparable ext cm"
  shows "findChangedColumns ext tcs cms = Returns (filter (changed ext tcs) cms)"
  by (rule findChangedColumns_pointwise) (use assms in \<open>simp add: isColumnChanged_comparable\<close>)

lemma findChangedColumns_returns:
  assumes "findChangedColumns ext tcs cms = Returns r"
  shows "r = filter (changed ext tcs) cms"
proof -
  have "\<forall>cm\<in>set cms. \<forall>tc. counterpart tcs cm = Some tc \<longrightarrow>
             isColumnChanged ext tc cm = Returns (\<not> unchanged ext tc cm)"
  proof (intro ballI allI impI)
    fix cm tc
    assume cm: "cm \<in> set cms" and tc: "counterpart tcs cm = Some tc"
    from filter_outcome_returns [OF assms [unfolded findChangedColumns_def]] cm tc
    obtain b where b: "isColumnChanged ext tc cm = Returns b"
      by (auto simp: counterpart_def)
    with isColumnChanged_returns [OF b]
    show "isColumnChanged ext tc cm = Returns (\<not> unchanged ext tc cm)" by simp
  qed
  from findChangedColumns_pointwise [OF this] assms show ?thesis by simp
qed

lemma length_differs_changed:
  "tc_length tc \<noteq> getColumnLength cm \<Longrightarrow> isColumnChanged ext tc cm = Returns True"
  by (simp add: isColumnChanged_def)

lemma length_differs_not_unchanged:
  "tc_length tc \<noteq> getColumnLength cm \<Longrightarrow> \<not> unchanged ext tc cm"
  by (simp add: unchanged_def)

lemma unchanged_length: "unchanged ext tc cm \<Longrightarrow> tc_length tc = getColumnLength cm"
  by (simp add: unchanged_def)

lemma unchanged_name: "unchanged ext tc cm \<Longrightarrow> tc_name tc = cm_databaseName cm"
  by (simp add: unchanged_def)

lemma filter_update_single:
  assumes "i < length xs" "\<forall>x\<in>set xs. \<not> P x" "P y"
  shows "filter P (xs[i := y]) = [y]"
proof -
  have "\<forall>x\<in>set (take i xs). \<not> P x" "\<forall>x\<in>set (drop (Suc i) xs). \<not> P x"
    using assms(2) by (auto dest: in_set_takeD in_set_dropD)
  then have "filter P (take i xs) = []" "filter P (drop (Suc i) xs) = []"
    by (simp_all add: filter_empty_conv)
  then show ?thesis
    using assms(1,3) by (simp add: upd_conv_take_nth_drop)
qed

lemma all_unchanged:
  assumes "\<forall>cm\<in>set cms. \<exists>tc. counterpart tcs cm = Some tc \<and> unchanged ext tc cm"
  shows "findChangedColumns ext tcs cms = Returns []"
proof -
  have "findChangedColumns ext tcs cms = Returns (filter (changed ext tcs) cms)"
    by (rule findChangedColumns_pointwise) (use assms in \<open>auto simp: unchanged_returns\<close>)
  moreover have "filter (changed ext tcs) cms = []"
    using assms by (auto simp: filter_empty_conv changed_iff)
  ultimately show ?thesis by simp
qed

lemma length_update:
  "normalizeType (cm\<lparr>cm_length := len\<rparr>) = normalizeType cm"
  "normalizeDefault ext (cm\<lparr>cm_length := len\<rparr>) = normalizeDefault ext cm"
  "normalizeIsUnique (cm\<lparr>cm_length := len\<rparr>) = normalizeIsUnique cm"
  by (simp_all add: normalizeType_def normalizeDefault_def normalizeIsUnique_def Let_def
        cong: if_cong jsval.case_cong)

lemma unchanged_length_update:
  assumes "getColumnLength (cm\<lparr>cm_length := len\<rparr>) = getColumnLength cm"
  shows "unchanged ext tc (cm\<lparr>cm_length := len\<rparr>) = unchanged ext tc cm"
  unfolding unchanged_def length_update assms by (simp cong: option.case_cong)

lemma length_change:
  assumes sync: "\<forall>cm\<in>set cms. \<exists>tc. counterpart tcs cm = Some tc \<and> unchanged ext tc cm"
    and i: "i < length cms"
    and len: "getColumnLength ((cms ! i)\<lparr>cm_length := len\<rparr>) \<noteq> getColumnLength (cms ! i)"
  shows "findChangedColumns ext tcs (cms[i := (cms ! i)\<lparr>cm_length := len\<rparr>])
           = Returns [(cms ! i)\<lparr>cm_length := len\<rparr>]"
proof -
  let ?new = "(cms ! i)\<lparr>cm_length := len\<rparr>"
  from sync i obtain tc where tc: "counterpart tcs (cms ! i) = Some tc"
    and s: "unchanged ext tc (cms ! i)" by (meson nth_mem)
  have cp: "counterpart tcs ?new = Some tc"
    using tc by (simp add: counterpart_def)
  have ne: "tc_length tc \<noteq> getColumnLength ?new"
    using unchanged_length [OF s] len by simp
  have new: "changed ext tcs ?new"
    using cp length_differs_not_unchanged [OF ne] by (simp add: changed_iff)
  have old: "\<forall>cm\<in>set cms. \<not> changed ext tcs cm"
    using sync by (auto simp: changed_iff)
  have "findChangedColumns ext tcs (cms[i := ?new]) = Returns (filter (changed ext tcs) (cms[i := ?new]))"
  proof (rule findChangedColumns_pointwise, intro ballI allI impI)
    fix cm tc'
    assume cm: "cm \<in> set (cms[i := ?new])" and c: "counterpart tcs cm = Some tc'"
    from cm have "cm = ?new \<or> cm \<in> set cms"
      using set_update_subset_insert [of cms i ?new] by auto
    then show "isColumnChanged ext tc' cm = Returns (\<not> unchanged ext tc' cm)"
    proof
      assume "cm = ?new"
      with c cp have "tc' = tc" by simp
      with \<open>cm = ?new\<close> length_differs_changed [OF ne] length_differs_not_unchanged [OF ne]
      show ?thesis by simp
    next
      assume "cm \<in> set cms"
      with sync c have "unchanged ext tc' cm" by auto
      with unchanged_returns [OF this] show ?thesis by simp
    qed
  qed
  with filter_update_single [OF i old new] show ?thesis by simp
qed

lemma length_same:
  assumes sync: "\<forall>cm\<in>set cms. \<exists>tc. counterpart tcs cm = Some tc \<and> unchanged ext tc cm"
    and i: "i < length cms"
    and len: "getColumnLength ((cms ! i)\<lparr>cm_length := len\<rparr>) = getColumnLength (cms ! i)"
  shows "findChangedColumns ext tcs (cms[i := (cms ! i)\<lparr>cm_length := len\<rparr>]) = Returns []"
proof (rule all_unchanged, rule ballI)
  let ?new = "(cms ! i)\<lparr>cm_length := len\<rparr>"
  fix cm
  assume "cm \<in> set (cms[i := ?new])"
  then have "cm = ?new \<or> cm \<in> set cms"
    using set_update_subset_insert [of cms i ?new] by auto
  then show "\<exists>tc. counterpart tcs cm = Some tc \<and> unchanged ext tc cm"
  proof
    assume new: "cm = ?new"
    from sync i obtain tc where tc: "counterpart tcs (cms ! i) = Some tc"
      and s: "unchanged ext tc (cms ! i)" by (meson nth_mem)
    have "counterpart tcs ?new = Some tc"
      using tc by (simp add: counterpart_def)
    with s unchanged_length_update [OF len] new show ?thesis by simp
  next
    assume "cm \<in> set cms"
    with sync show ?thesis by simp
  qed
qed

lemma uuid_ignores_isGenerated:
  assumes "unchanged ext tc cm" "cm_generationStrategy cm = Some Uuid"
  shows "findChangedColumns ext [tc\<lparr>tc_isGenerated := g\<rparr>] [cm] = Returns []"
proof -
  have "unchanged ext (tc\<lparr>tc_isGenerated := g\<rparr>) cm"
    using assms by (simp add: unchanged_def cong: outcome.case_cong option.case_cong)
  moreover have "counterpart [tc\<lparr>tc_isGenerated := g\<rparr>] cm = Some (tc\<lparr>tc_isGenerated := g\<rparr>)"
    using unchanged_name [OF assms(1)] by (simp add: counterpart_def)
  ultimately show ?thesis by (intro all_unchanged) simp
qed

lemma returned_have_counterpart:
  assumes "findChangedColumns ext tcs cms = Returns r" "cm \<in> set r"
  shows "cm \<in> set cms \<and> (\<exists>tc\<in>set tcs. tc_name tc = cm_databaseName cm)"
proof -
  from findChangedColumns_returns [OF assms(1)] assms(2)
  have "cm \<in> set cms" and "changed ext tcs cm" by simp_all
  then obtain tc where "find (\<lambda>c. tc_name c = cm_databaseName cm) tcs = Some tc"
    by (auto simp: changed_iff counterpart_def split: option.splits)
  then have "tc \<in> set tcs \<and> tc_name tc = cm_databaseName cm"
    by (auto simp: find_Some_iff)
  with \<open>cm \<in> set cms\<close> show ?thesis by blast
qed

lemma blank_unchanged: "unchanged reference_externals blank_live blank_column"
  by (simp add: unchanged_def blank_live_def blank_column_def normalizeType_def getColumnLength_def
        escapeComment_def normalizeDefault_def normalizeDatetimeFunction_def normalizeIsUnique_def)

text \<open>
  C2, as stated. Changing only the declared length yields exactly that column: a
  \<open>varchar\<close> column without a declared length is in sync with a live column of length
  \<open>255\<close>; declaring the length \<open>255\<close> changes the declared length and nothing else, and
  no column is returned. A desired column identical to its live counterpart in every
  compared field yields no entry: a live and a desired column that both have the
  \<open>onUpdate\<close> text \<open>now()\<close> agree in every compared field, and the desired column is
  returned.
\<close>

theorem findChangedColumns_length_and_onUpdate:
  "in_sync reference_externals blank_live blank_column \<and>
   cm_length (blank_column\<lparr>cm_length := ''255''\<rparr>) \<noteq> cm_length blank_column \<and>
   findChangedColumns reference_externals [blank_live] [blank_column\<lparr>cm_length := ''255''\<rparr>]
     = Returns [] \<and>
   tc_onUpdate (blank_live\<lparr>tc_onUpdate := Some ''now()''\<rparr>)
     = cm_onUpdate (blank_column\<lparr>cm_onUpdate := Some ''now()''\<rparr>) \<and>
   in_sync reference_externals (blank_live\<lparr>tc_onUpdate := Some ''now()''\<rparr>)
     (blank_column\<lparr>cm_onUpdate := Some ''now()''\<rparr>) \<and>
   findChangedColumns reference_externals [blank_live\<lparr>tc_onUpdate := Some ''now()''\<rparr>]
       [blank_column\<lparr>cm_onUpdate := Some ''now()''\<rparr>]
     = Returns [blank_column\<lparr>cm_onUpdate := Some ''now()''\<rparr>]"
proof -
  have "unchanged reference_externals blank_live (blank_column\<lparr>cm_length := ''255''\<rparr>)"
    by (simp add: unchanged_def blank_live_def blank_column_def normalizeType_def getColumnLength_def
        escapeComment_def normalizeDefault_def normalizeDatetimeFunction_def normalizeIsUnique_def)
  moreover have "counterpart [blank_live] (blank_column\<lparr>cm_length := ''255''\<rparr>) = Some blank_live"
    by (simp add: counterpart_def blank_live_def blank_column_def)
  ultimately have 1: "findChangedColumns reference_externals [blank_live] [blank_column\<lparr>cm_length := ''255''\<rparr>]
     = Returns []"
    by (intro all_unchanged) simp
  have 2: "in_sync reference_externals (blank_live\<lparr>tc_onUpdate := Some ''now()''\<rparr>)
             (blank_column\<lparr>cm_onUpdate := Some ''now()''\<rparr>)"
    by (simp add: in_sync_def blank_live_def blank_column_def normalizeType_def getColumnLength_def
        escapeComment_def normalizeDefault_def normalizeIsUnique_def)
  have 3: "findChangedColumns reference_externals [blank_live\<lparr>tc_onUpdate := Some ''now()''\<rparr>]
       [blank_column\<lparr>cm_onUpdate := Some ''now()''\<rparr>]
     = Returns [blank_column\<lparr>cm_onUpdate := Some ''now()''\<rparr>]"
    by (simp add: findChangedColumns_def isColumnChanged_def blank_live_def blank_column_def
        normalizeType_def getColumnLength_def escapeComment_def normalizeDefault_def now_normal
        normalizeIsUnique_def compareNullableValues_def)
  from blank_unchanged have 0: "in_sync reference_externals blank_live blank_column"
    by (simp add: unchanged_iff)
  from 0 1 2 3 show ?thesis by (simp add: blank_column_def)
qed

text \<open>
  C2, amended: \<open>findChangedColumns\<close> returns, in their order, exactly those desired
  columns that have a live counterpart (the first live column whose name is the desired
  column's database name) and differ from it in at least one compared field or have a
  counterpart whose \<open>onUpdate\<close> is not in normal form (the source normalises the desired
  side only); a desired column identical to its counterpart in every compared field, the
  counterpart's \<open>onUpdate\<close> being in normal form, yields no entry; when every desired
  column is so, changing only the declared length of one of them yields exactly that
  column if the change alters what \<open>getColumnLength\<close> returns for it and no column if it
  does not, and the entry is the desired column, not the live one; live-only and
  desired-only columns are never returned; a difference in \<open>isGenerated\<close> alone is
  ignored when the desired generation strategy is uuid.
\<close>

theorem findChangedColumns_membership:
  "((\<forall>cm\<in>set cms. comparable ext cm) \<longrightarrow>
      findChangedColumns ext tcs cms = Returns (filter (changed ext tcs) cms)) \<and>
   (findChangedColumns ext tcs cms = Returns r \<longrightarrow>
      r = filter (changed ext tcs) cms \<and>
      (\<forall>cm\<in>set r. cm \<in> set cms \<and> (\<exists>tc\<in>set tcs. tc_name tc = cm_databaseName cm))) \<and>
   ((\<forall>cm\<in>set cms. \<exists>tc. counterpart tcs cm = Some tc \<and> in_sync ext tc cm \<and> normal_onUpdate tc) \<longrightarrow>
      findChangedColumns ext tcs cms = Returns [] \<and>
      (i < length cms \<and>
       getColumnLength ((cms ! i)\<lparr>cm_length := len\<rparr>) \<noteq> getColumnLength (cms ! i) \<longrightarrow>
         findChangedColumns ext tcs (cms[i := (cms ! i)\<lparr>cm_length := len\<rparr>])
           = Returns [(cms ! i)\<lparr>cm_length := len\<rparr>]) \<and>
      (i < length cms \<and>
       getColumnLength ((cms ! i)\<lparr>cm_length := len\<rparr>) = getColumnLength (cms ! i) \<longrightarrow>
         findChangedColumns ext tcs (cms[i := (cms ! i)\<lparr>cm_length := len\<rparr>]) = Returns [])) \<and>
   (in_sync ext tc cm \<and> normal_onUpdate tc \<and> cm_generationStrategy cm = Some Uuid \<longrightarrow>
      findChangedColumns ext [tc\<lparr>tc_isGenerated := g\<rparr>] [cm] = Returns [])"
proof -
  have sync: "(\<forall>cm\<in>set cms. \<exists>tc. counterpart tcs cm = Some tc \<and> in_sync ext tc cm \<and> normal_onUpdate tc)
              = (\<forall>cm\<in>set cms. \<exists>tc. counterpart tcs cm = Some tc \<and> unchanged ext tc cm)"
    by (simp add: unchanged_iff)
  show ?thesis
    unfolding sync
    apply (intro conjI impI)
    subgoal by (rule findChangedColumns_comparable)
    subgoal by (rule findChangedColumns_returns)
    subgoal using returned_have_counterpart by blast
    subgoal by (rule all_unchanged)
    subgoal using length_change by blast
    subgoal using length_same by blast
    subgoal using uuid_ignores_isGenerated [of ext tc cm g] by (simp add: unchanged_iff)
    done
qed

theorem findChangedColumns_membership_witness:
  "findChangedColumns reference_externals [blank_live] [blank_column\<lparr>cm_length := ''100''\<rparr>]
     = Returns [blank_column\<lparr>cm_length := ''100''\<rparr>] \<and>
   findChangedColumns reference_externals [blank_live] [blank_column] = Returns []"
proof -
  have sync: "\<forall>cm\<in>set [blank_column]. \<exists>tc. counterpart [blank_live] cm = Some tc \<and>
                in_sync reference_externals tc cm \<and> normal_onUpdate tc"
    using blank_unchanged
    by (simp add: unchanged_iff counterpart_def blank_live_def blank_column_def)
  have len: "(0::nat) < length [blank_column] \<and>
             getColumnLength (([blank_column] ! 0)\<lparr>cm_length := ''100''\<rparr>)
               \<noteq> getColumnLength ([blank_column] ! 0)"
    by (simp add: getColumnLength_def blank_column_def)
  from findChangedColumns_membership [of "[blank_column]" reference_externals "[blank_live]" _ 0 "''100''"]
    sync len
  show ?thesis by simp
qed

end
